theory Spec2Isabelle
  imports Complex_Main
begin

section \<open>JavaScript strings\<close>

text \<open>
  Strings are lists of 8-bit characters, so the model covers ASCII text. \<open>toLowerCase\<close>
  maps \<open>A\<close>..\<open>Z\<close> to \<open>a\<close>..\<open>z\<close>; the white space of \<open>trim\<close> and of the regular
  expression class \<open>\s\<close> is tab, line feed, vertical tab, form feed, carriage return and
  space.
\<close>

definition is_space :: "char \<Rightarrow> bool" where
  "is_space c = (c = CHR 0x09 \<or> c = CHR 0x0A \<or> c = CHR 0x0B \<or> c = CHR 0x0C \<or> c = CHR 0x0D
     \<or> c = CHR '' '')"

definition lower_char :: "char \<Rightarrow> char" where
  "lower_char c =
     (case map_of (zip ''ABCDEFGHIJKLMNOPQRSTUVWXYZ'' ''abcdefghijklmnopqrstuvwxyz'') c of
        Some d \<Rightarrow> d
      | None \<Rightarrow> c)"

definition toLowerCase :: "string \<Rightarrow> string" where
  "toLowerCase s = map lower_char s"

definition trim :: "string \<Rightarrow> string" where
  "trim s = rev (dropWhile is_space (rev (dropWhile is_space s)))"

text \<open>\<open>s.startsWith(w)\<close> and \<open>s.endsWith(w)\<close>.\<close>

definition startsWith :: "string \<Rightarrow> string \<Rightarrow> bool" where
  "startsWith s w = (take (length w) s = w)"

definition endsWith :: "string \<Rightarrow> string \<Rightarrow> bool" where
  "endsWith s w = (length w \<le> length s \<and> drop (length s - length w) s = w)"

text \<open>\<open>s.includes(w)\<close>: \<open>w\<close> occurs in \<open>s\<close> as a contiguous substring.\<close>

fun includes_str :: "string \<Rightarrow> string \<Rightarrow> bool" where
  "includes_str [] w = (w = [])"
| "includes_str (c # cs) w = (startsWith (c # cs) w \<or> includes_str cs w)"

text \<open>\<open>s.split(' ')\<close>: the pieces between single spaces, empty pieces included.\<close>

fun split_space :: "string \<Rightarrow> string list" where
  "split_space [] = [[]]"
| "split_space (c # cs) =
     (if c = CHR '' '' then [] # split_space cs
      else (case split_space cs of
              [] \<Rightarrow> [[c]]
            | w # ws \<Rightarrow> (c # w) # ws))"

section \<open>Data model (src/types/index.ts)\<close>

text \<open>
  A \<open>Product\<close> of the catalog. The fields \<open>image_url\<close>, \<open>category_id\<close>, \<open>created_at\<close> and
  the joined \<open>category\<close> play no part in matching or in the cart and order operations and
  are left out. A JavaScript number is a rational here when it is a price or a score, and an
  integer when it is a quantity.
\<close>

record product =
  p_id :: string
  p_name :: string
  p_description :: "string option"
  p_price :: rat
  p_stock_quantity :: int
  p_unit :: string

section \<open>Fuzzy matcher (lib/fuzzySearch.ts, class ProductFuzzySearch)\<close>

datatype confidence = Exact | High | Medium | Low | NoConfidence

text \<open>
  The \<open>matchType\<close> tag. \<open>FuzzyMatchScore s\<close> stands for the template
  \<open>fuzzy_match_score_${score.toFixed(3)}\<close>.
\<close>

datatype match_type =
    EmptyQuery | ExactMatch | SingularPluralMatch | CleanedExactMatch
  | FuzzyMatchScore rat | PartialWordMatch | NoMatch

record match_result =
  product :: "product option"
  confidence :: confidence
  alternatives :: "product list"
  matchType :: match_type

text \<open>
  The Fuse.js index is a library outside the repository. It enters as a parameter
  \<open>fuse products query limit\<close>, the scored hits of \<open>this.fuse.search(query, {limit})\<close>, best
  first.
\<close>

type_synonym fuse_search = "product list \<Rightarrow> string \<Rightarrow> nat \<Rightarrow> (product \<times> rat) list"

definition search :: "fuse_search \<Rightarrow> product list \<Rightarrow> string \<Rightarrow> nat \<Rightarrow> (product \<times> rat) list" where
  "search fuse products query limit =
     (if query = [] \<or> length (trim query) < 2 then []
      else fuse products (trim query) limit)"

text \<open>
  \<open>.replace(/^(fresh|organic|premium|quality|best|top|local|farm)\s+/i, '')\<close>: one of the
  words at the start, followed by at least one white space character, is removed together
  with all the white space after it.
\<close>

fun strip_prefix_word :: "string list \<Rightarrow> string \<Rightarrow> string" where
  "strip_prefix_word [] s = s"
| "strip_prefix_word (w # ws) s =
     (let r = drop (length w) s in
      if startsWith s w \<and> r \<noteq> [] \<and> is_space (hd r) then dropWhile is_space r
      else strip_prefix_word ws s)"

text \<open>
  \<open>.replace(/\s+(fruit|vegetable|item|product|food)$/i, '')\<close>: one of the words at the end,
  preceded by at least one white space character, is removed together with the whole run
  of white space before it (the leftmost match starts where that run starts).
\<close>

fun strip_suffix_word :: "string list \<Rightarrow> string \<Rightarrow> string" where
  "strip_suffix_word [] s = s"
| "strip_suffix_word (w # ws) s =
     (let r = take (length s - length w) s in
      if endsWith s w \<and> r \<noteq> [] \<and> is_space (last r) then rev (dropWhile is_space (rev r))
      else strip_suffix_word ws s)"

definition cleanSearch :: "string \<Rightarrow> string" where
  "cleanSearch s =
     trim (strip_suffix_word [''fruit'', ''vegetable'', ''item'', ''product'', ''food'']
       (strip_prefix_word
          [''fresh'', ''organic'', ''premium'', ''quality'', ''best'', ''top'', ''local'', ''farm''] s))"

text \<open>The predicate of Strategy 5, for one product and the whole query.\<close>

definition partial_word_match :: "string \<Rightarrow> product \<Rightarrow> bool" where
  "partial_word_match normalizedSearch p =
     (let productName = toLowerCase (p_name p);
          searchWords = split_space normalizedSearch
      in list_ex (\<lambda>word.
           3 \<le> length word \<and>
           (includes_str productName word \<or>
            includes_str word productName \<or>
            list_ex (\<lambda>productWord.
               startsWith productWord (take 3 word) \<or>
               startsWith word (take 3 productWord)) (split_space productName)))
         searchWords)"

text \<open>
  \<open>getSuggestions(searchName, limit = 3)\<close>. The de-duplication keeps a product when no
  earlier one in the combined list has its id.
\<close>

fun dedup_by_id :: "string list \<Rightarrow> product list \<Rightarrow> product list" where
  "dedup_by_id seen [] = []"
| "dedup_by_id seen (p # ps) =
     (if p_id p \<in> set seen then dedup_by_id seen ps
      else p # dedup_by_id (p_id p # seen) ps)"

definition getSuggestions :: "fuse_search \<Rightarrow> product list \<Rightarrow> string \<Rightarrow> nat \<Rightarrow> product list" where
  "getSuggestions fuse products searchName limit =
     (let firstWord = hd (split_space searchName) in
      if length firstWord < 2 then []
      else
        let suggestions = search fuse products firstWord (limit * 2);
            letterSuggestions = filter (\<lambda>p.
               let productName = toLowerCase (p_name p) in
               startsWith productName (take 2 firstWord) \<or>
               list_ex (\<lambda>word. startsWith word (take 2 firstWord)) (split_space productName))
              products;
            allSuggestions = map fst suggestions @ letterSuggestions;
            uniqueSuggestions = dedup_by_id [] allSuggestions
        in take limit uniqueSuggestions)"

text \<open>\<open>findProduct(searchName)\<close>: the cascade of strategies, the first success wins.\<close>

definition findProduct :: "fuse_search \<Rightarrow> product list \<Rightarrow> string \<Rightarrow> match_result" where
  "findProduct fuse products searchName =
     (if searchName = [] \<or> trim searchName = [] then
        \<lparr>product = None, confidence = NoConfidence, alternatives = [], matchType = EmptyQuery\<rparr>
      else
        let normalizedSearch = trim (toLowerCase searchName) in
        (case find (\<lambda>p. toLowerCase (p_name p) = normalizedSearch) products of
          Some exactMatch \<Rightarrow>
            \<lparr>product = Some exactMatch, confidence = Exact, alternatives = [],
             matchType = ExactMatch\<rparr>
        | None \<Rightarrow>
        (let singularSearch =
              (if endsWith normalizedSearch ''s'' then butlast normalizedSearch
               else normalizedSearch);
            pluralSearch =
              (if endsWith normalizedSearch ''s'' then normalizedSearch
               else normalizedSearch @ ''s'')
        in
        (case find (\<lambda>p. let productName = toLowerCase (p_name p) in
                     productName = singularSearch \<or> productName = pluralSearch) products of
          Some pluralMatch \<Rightarrow>
            \<lparr>product = Some pluralMatch, confidence = Exact, alternatives = [],
             matchType = SingularPluralMatch\<rparr>
        | None \<Rightarrow>
        (let cleanedSearch = cleanSearch normalizedSearch in
        (case (if cleanedSearch \<noteq> normalizedSearch \<and> 2 \<le> length cleanedSearch
              then find (\<lambda>p.
                     toLowerCase (p_name p) = cleanedSearch \<or>
                     toLowerCase (p_name p) =
                       (if endsWith cleanedSearch ''s'' then butlast cleanedSearch
                        else cleanedSearch @ ''s'')) products
              else None) of
          Some cleanMatch \<Rightarrow>
            \<lparr>product = Some cleanMatch, confidence = High, alternatives = [],
             matchType = CleanedExactMatch\<rparr>
        | None \<Rightarrow>
        (case search fuse products normalizedSearch 5 of
          bestMatch # others \<Rightarrow>
            \<lparr>product = Some (fst bestMatch),
             confidence =
               (if snd bestMatch \<le> 1 / 10 then High
                else if snd bestMatch \<le> 3 / 10 then Medium
                else Low),
             alternatives = map fst (filter (\<lambda>result. snd result \<le> 1 / 2) (take 3 others)),
             matchType = FuzzyMatchScore (snd bestMatch)\<rparr>
        | [] \<Rightarrow>
        (case filter (partial_word_match normalizedSearch) products of
          firstPartial # morePartial \<Rightarrow>
            \<lparr>product = Some firstPartial, confidence = Low, alternatives = take 3 morePartial,
             matchType = PartialWordMatch\<rparr>
        | [] \<Rightarrow>
            \<lparr>product = None, confidence = NoConfidence,
             alternatives = getSuggestions fuse products normalizedSearch 3,
             matchType = NoMatch\<rparr>))))))))"


section \<open>JavaScript values of the tool arguments\<close>

text \<open>
  The voice agent passes loosely typed arguments. A number is \<open>NaN\<close> or a rational
  (\<open>Infinity\<close> is not modelled). \<open>Number(s)\<close> on a string is the language's own
  \<open>StringToNumber\<close>; it is a parameter of the model, kept in the \<open>host\<close> record together
  with the Fuse.js index.
\<close>

datatype jsnum = NaN | Num rat

datatype jsval = JUndefined | JNull | JBool bool | JNumber jsnum | JString string

record host =
  host_StringToNumber :: "string \<Rightarrow> jsnum"
  host_fuse :: fuse_search

text \<open>\<open>!x\<close> is \<open>\<not> truthy x\<close>.\<close>

fun truthy :: "jsval \<Rightarrow> bool" where
  "truthy JUndefined = False"
| "truthy JNull = False"
| "truthy (JBool b) = b"
| "truthy (JNumber NaN) = False"
| "truthy (JNumber (Num r)) = (r \<noteq> 0)"
| "truthy (JString s) = (s \<noteq> [])"

fun toNumber :: "host \<Rightarrow> jsval \<Rightarrow> jsnum" where
  "toNumber h JUndefined = NaN"
| "toNumber h JNull = Num 0"
| "toNumber h (JBool b) = Num (if b then 1 else 0)"
| "toNumber h (JNumber n) = n"
| "toNumber h (JString s) = host_StringToNumber h s"

text \<open>\<open>n || d\<close> for a number \<open>n\<close>: \<open>NaN\<close> and \<open>0\<close> are falsy.\<close>

fun or_number :: "jsnum \<Rightarrow> rat \<Rightarrow> rat" where
  "or_number NaN d = d"
| "or_number (Num r) d = (if r = 0 then d else r)"

section \<open>Storage (the Supabase tables) and the application context\<close>

record app_user =
  u_id :: string
  u_email :: string

text \<open>The \<open>user_metadata\<close> of the signed-in account, read by \<open>getUserProfile\<close>.\<close>

record user_metadata =
  md_full_name :: "string option"
  md_phone :: "string option"
  md_address :: "string option"

text \<open>A row of \<open>cart_items\<close>; the table is \<open>UNIQUE(user_id, product_id)\<close>.\<close>

record cart_row =
  cr_id :: nat
  cr_user_id :: string
  cr_product_id :: string
  cr_quantity :: int

text \<open>
  A \<open>CartItem\<close> as a select returns it, joined with its product (\<open>product:products(...)\<close>);
  the join is \<open>None\<close> when no product has the row's \<open>product_id\<close>.
\<close>

record cart_item =
  ci_id :: nat
  ci_user_id :: string
  ci_product_id :: string
  ci_quantity :: int
  ci_product :: "product option"

record order_row =
  o_id :: nat
  o_user_id :: string
  o_total_amount :: rat
  o_status :: string
  o_delivery_address :: string
  o_customer_name :: string
  o_customer_phone :: string
  o_created_at :: nat

record order_item_row =
  oi_order_id :: nat
  oi_product_id :: string
  oi_quantity :: int
  oi_price :: rat

text \<open>
  What the next storage call does: it succeeds, it resolves to \<open>{ error }\<close>, or the
  awaited promise rejects.
\<close>

datatype outcome = Succeeds | ReturnsError | Throws

text \<open>
  The world a tool call runs in: the state of the React context (\<open>user\<close>, \<open>products\<close>,
  \<open>cartItems\<close>), the tables, and the outcomes of the storage calls to come, one per call
  in the order the calls are made (a call beyond the end of the list succeeds).
  \<open>ctx_cartItems\<close> is the state that \<open>setCartItems\<close> overwrites, as a component rendered
  after the change reads it. The client tools are not rendered again: \<open>startConversation\<close>
  hands them to \<open>conversation.startSession\<close> once, so for the whole voice session they keep
  the \<open>addToCart\<close> of the render in which the session was started, and that function keeps
  the \<open>cartItems\<close> of its render. \<open>session_cartItems\<close> is that list; no function writes it.
  (The tools keep the \<open>user\<close> and the \<open>products\<close> of that render as well; nothing modelled
  here changes either, so \<open>ctx_user\<close> and \<open>ctx_products\<close> serve for both.) The toasts and
  the console are outside the model. \<open>db_serial\<close> feeds the generated ids and \<open>created_at\<close>.
\<close>

record world =
  ctx_user :: "app_user option"
  ctx_products :: "product list"
  ctx_cartItems :: "cart_item list"
  session_cartItems :: "cart_item list"
  db_products :: "product list"
  db_cart_items :: "cart_row list"
  db_orders :: "order_row list"
  db_order_items :: "order_item_row list"
  db_serial :: nat
  auth_metadata :: user_metadata
  outcomes :: "outcome list"

datatype exn = StorageError | TypeError | Error string

text \<open>The \<open>{ data, error }\<close> a Supabase call resolves to.\<close>

datatype 'a reply = Data 'a | Err

type_synonym 'a io = "world \<Rightarrow> (exn + 'a) \<times> world"

definition return :: "'a \<Rightarrow> 'a io" where
  "return x w = (Inr x, w)"

definition throw :: "exn \<Rightarrow> 'a io" where
  "throw e w = (Inl e, w)"

text \<open>\<open>const x = await m; k x\<close>: a rejection of \<open>m\<close> skips \<open>k\<close>.\<close>

definition await :: "'a io \<Rightarrow> ('a \<Rightarrow> 'b io) \<Rightarrow> 'b io" where
  "await m k w = (case m w of (Inl e, w') \<Rightarrow> (Inl e, w') | (Inr x, w') \<Rightarrow> k x w')"

text \<open>\<open>try { m } catch (e) { h e }\<close>.\<close>

definition try_catch :: "'a io \<Rightarrow> (exn \<Rightarrow> 'a io) \<Rightarrow> 'a io" where
  "try_catch m h w = (case m w of (Inl e, w') \<Rightarrow> h e w' | (Inr x, w') \<Rightarrow> (Inr x, w'))"

text \<open>
  A call that is not awaited (\<open>refreshCart(); // Update UI in the background\<close>): it is run
  at once and its rejection reaches nobody.
\<close>

definition background :: "unit io \<Rightarrow> unit io" where
  "background m w = (Inr (), snd (m w))"

definition next_outcome :: "world \<Rightarrow> outcome \<times> world" where
  "next_outcome w =
     (case outcomes w of
        [] \<Rightarrow> (Succeeds, w)
      | x # xs \<Rightarrow> (x, w\<lparr>outcomes := xs\<rparr>))"

text \<open>The world once the next outcome is used up, and whether the next call succeeds.\<close>

definition advance :: "world \<Rightarrow> world" where
  "advance w = snd (next_outcome w)"

definition next_succeeds :: "world \<Rightarrow> bool" where
  "next_succeeds w = (fst (next_outcome w) = Succeeds)"

text \<open>
  One storage call: \<open>run\<close> computes the data and the new tables when the call succeeds.
\<close>

definition storage_call :: "(world \<Rightarrow> 'a reply \<times> world) \<Rightarrow> ('a reply) io" where
  "storage_call run w =
     (case next_outcome w of
        (Throws, w') \<Rightarrow> (Inl StorageError, w')
      | (ReturnsError, w') \<Rightarrow> (Inr Err, w')
      | (Succeeds, w') \<Rightarrow> (case run w' of (r, w'') \<Rightarrow> (Inr r, w'')))"

definition join_product :: "world \<Rightarrow> cart_row \<Rightarrow> cart_item" where
  "join_product w r =
     \<lparr>ci_id = cr_id r, ci_user_id = cr_user_id r, ci_product_id = cr_product_id r,
      ci_quantity = cr_quantity r,
      ci_product = find (\<lambda>p. p_id p = cr_product_id r) (db_products w)\<rparr>"

text \<open>The rows of \<open>cart_items\<close> of one user, each joined with its product.\<close>

definition cart_rows_of :: "world \<Rightarrow> string \<Rightarrow> cart_item list" where
  "cart_rows_of w userId =
     map (join_product w) (filter (\<lambda>r. cr_user_id r = userId) (db_cart_items w))"

text \<open>\<open>supabase.from('cart_items').select(...).eq('user_id', userId)\<close>.\<close>

definition select_cart_items :: "string \<Rightarrow> (cart_item list option) reply io" where
  "select_cart_items userId =
     storage_call (\<lambda>w. (Data (Some (cart_rows_of w userId)), w))"

text \<open>
  \<open>.insert([{ user_id, product_id, quantity }])\<close>; the insert is refused when the user
  already has a row for the product (the unique constraint).
\<close>

definition insert_cart_item :: "string \<Rightarrow> string \<Rightarrow> int \<Rightarrow> unit reply io" where
  "insert_cart_item userId productId quantity =
     storage_call (\<lambda>w.
       if list_ex (\<lambda>r. cr_user_id r = userId \<and> cr_product_id r = productId) (db_cart_items w)
       then (Err, w)
       else (Data (),
             w\<lparr>db_cart_items := db_cart_items w @
                  [\<lparr>cr_id = db_serial w, cr_user_id = userId, cr_product_id = productId,
                    cr_quantity = quantity\<rparr>],
               db_serial := Suc (db_serial w)\<rparr>))"

text \<open>\<open>.update({ quantity }).eq('user_id', ...).eq('product_id', ...)\<close>.\<close>

definition update_cart_item :: "string \<Rightarrow> string \<Rightarrow> int \<Rightarrow> unit reply io" where
  "update_cart_item userId productId quantity =
     storage_call (\<lambda>w.
       (Data (),
        w\<lparr>db_cart_items :=
             map (\<lambda>r. if cr_user_id r = userId \<and> cr_product_id r = productId
                       then r\<lparr>cr_quantity := quantity\<rparr> else r) (db_cart_items w)\<rparr>))"

text \<open>\<open>.delete().eq('user_id', ...).eq('product_id', ...)\<close>.\<close>

definition delete_cart_item :: "string \<Rightarrow> string \<Rightarrow> unit reply io" where
  "delete_cart_item userId productId =
     storage_call (\<lambda>w.
       (Data (),
        w\<lparr>db_cart_items :=
             filter (\<lambda>r. \<not> (cr_user_id r = userId \<and> cr_product_id r = productId))
               (db_cart_items w)\<rparr>))"

text \<open>\<open>supabase.from('cart_items').delete().eq('user_id', user.id)\<close>.\<close>

definition delete_cart_of_user :: "string \<Rightarrow> unit reply io" where
  "delete_cart_of_user userId =
     storage_call (\<lambda>w.
       (Data (), w\<lparr>db_cart_items := filter (\<lambda>r. cr_user_id r \<noteq> userId) (db_cart_items w)\<rparr>))"

text \<open>\<open>supabase.from('orders').insert({...}).select().single()\<close>: the new row comes back.\<close>

definition insert_order :: "string \<Rightarrow> rat \<Rightarrow> string \<Rightarrow> string \<Rightarrow> string \<Rightarrow> order_row reply io" where
  "insert_order userId totalAmount deliveryAddress customerName customerPhone =
     storage_call (\<lambda>w.
       let row = \<lparr>o_id = db_serial w, o_user_id = userId, o_total_amount = totalAmount,
                  o_status = ''Pending'', o_delivery_address = deliveryAddress,
                  o_customer_name = customerName, o_customer_phone = customerPhone,
                  o_created_at = db_serial w\<rparr>
       in (Data row, w\<lparr>db_orders := db_orders w @ [row], db_serial := Suc (db_serial w)\<rparr>))"

definition insert_order_items :: "order_item_row list \<Rightarrow> unit reply io" where
  "insert_order_items rows =
     storage_call (\<lambda>w. (Data (), w\<lparr>db_order_items := db_order_items w @ rows\<rparr>))"

text \<open>
  \<open>supabase.from('orders').delete().eq('id', orderData.id)\<close>; \<open>order_items.order_id\<close> is
  declared \<open>ON DELETE CASCADE\<close>.
\<close>

definition delete_order :: "nat \<Rightarrow> unit reply io" where
  "delete_order orderId =
     storage_call (\<lambda>w.
       (Data (),
        w\<lparr>db_orders := filter (\<lambda>r. o_id r \<noteq> orderId) (db_orders w),
          db_order_items := filter (\<lambda>r. oi_order_id r \<noteq> orderId) (db_order_items w)\<rparr>))"

text \<open>\<open>supabase.auth.getUser()\<close>.\<close>

definition auth_getUser :: "user_metadata reply io" where
  "auth_getUser = storage_call (\<lambda>w. (Data (auth_metadata w), w))"

section \<open>AppContext.tsx\<close>

definition refreshCart :: "unit io" where
  "refreshCart w =
     (case ctx_user w of
        None \<Rightarrow> return () w
      | Some user \<Rightarrow>
          await (select_cart_items (u_id user)) (\<lambda>res w'.
            case res of
              Err \<Rightarrow> return () w'
            | Data d \<Rightarrow>
                return () (w'\<lparr>ctx_cartItems := (case d of None \<Rightarrow> [] | Some items \<Rightarrow> items)\<rparr>)) w)"

definition removeFromCart :: "string \<Rightarrow> unit io" where
  "removeFromCart productId w =
     (case ctx_user w of
        None \<Rightarrow> return () w
      | Some user \<Rightarrow>
          await (delete_cart_item (u_id user) productId) (\<lambda>res.
            case res of
              Err \<Rightarrow> return ()
            | Data _ \<Rightarrow> refreshCart) w)"

definition updateCartQuantity :: "string \<Rightarrow> int \<Rightarrow> unit io" where
  "updateCartQuantity productId quantity w =
     (case ctx_user w of
        None \<Rightarrow> return () w
      | Some user \<Rightarrow>
          if quantity \<le> 0 then removeFromCart productId w
          else
            await (update_cart_item (u_id user) productId quantity) (\<lambda>res.
              case res of
                Err \<Rightarrow> return ()
              | Data _ \<Rightarrow> refreshCart) w)"

text \<open>
  \<open>addToCart\<close> looks the product up in the \<open>cartItems\<close> of the render that created the
  function, not in the table: \<open>cartItems\<close> is the list the caller's copy of the function
  closes over.
\<close>

definition addToCart :: "cart_item list \<Rightarrow> string \<Rightarrow> int \<Rightarrow> unit io" where
  "addToCart cartItems productId quantity w =
     (case ctx_user w of
        None \<Rightarrow> return () w
      | Some user \<Rightarrow>
          (case find (\<lambda>item. ci_product_id item = productId) cartItems of
             Some existingItem \<Rightarrow>
               updateCartQuantity productId (ci_quantity existingItem + quantity) w
           | None \<Rightarrow>
               await (insert_cart_item (u_id user) productId quantity) (\<lambda>res.
                 case res of
                   Err \<Rightarrow> return ()
                 | Data _ \<Rightarrow> refreshCart) w))"

text \<open>\<open>item.product?.price || 0\<close>.\<close>

definition price_or_0 :: "cart_item \<Rightarrow> rat" where
  "price_or_0 item = (case ci_product item of None \<Rightarrow> 0 | Some p \<Rightarrow> p_price p)"

definition getCartTotal :: "world \<Rightarrow> rat" where
  "getCartTotal w =
     foldl (\<lambda>total item. total + price_or_0 item * of_int (ci_quantity item)) 0 (ctx_cartItems w)"

definition getCartItemCount :: "world \<Rightarrow> int" where
  "getCartItemCount w = foldl (\<lambda>count item. count + ci_quantity item) 0 (ctx_cartItems w)"

text \<open>
  \<open>placeOrder(deliveryAddress, customerName, customerPhone, itemsForOrder)\<close>, the first
  definition of the file (lines 241-303). \<open>itemsForOrder\<close> is \<open>None\<close> when the caller leaves
  the fourth argument out. \<open>item.product.id\<close> raises a \<open>TypeError\<close> for an item without
  its product.
\<close>

definition placeOrder ::
  "string \<Rightarrow> string \<Rightarrow> string \<Rightarrow> cart_item list option \<Rightarrow> unit io" where
  "placeOrder deliveryAddress customerName customerPhone itemsForOrder w =
     (case (ctx_user w, itemsForOrder) of
        (Some user, Some items) \<Rightarrow>
          if items = [] then return () w
          else
            (let totalAmount =
                   foldl (\<lambda>sum item. sum + price_or_0 item * of_int (ci_quantity item)) 0 items
             in await (insert_order (u_id user) totalAmount deliveryAddress customerName
                         customerPhone) (\<lambda>res.
                  case res of
                    Err \<Rightarrow> throw StorageError
                  | Data orderData \<Rightarrow>
                      if list_ex (\<lambda>item. ci_product item = None) items
                      then throw TypeError
                      else
                        (let orderItems =
                               map (\<lambda>item.
                                      \<lparr>oi_order_id = o_id orderData,
                                       oi_product_id = p_id (the (ci_product item)),
                                       oi_quantity = ci_quantity item,
                                       oi_price = price_or_0 item\<rparr>) items
                         in await (insert_order_items orderItems) (\<lambda>res.
                              case res of
                                Err \<Rightarrow>
                                  await (delete_order (o_id orderData)) (\<lambda>_. throw StorageError)
                              | Data _ \<Rightarrow>
                                  await (delete_cart_of_user (u_id user)) (\<lambda>_. refreshCart)))) w)
      | _ \<Rightarrow> return () w)"

text \<open>
  \<open>placeOrder(deliveryAddress, customerName, customerPhone)\<close>, the second definition of
  the file (lines 564-624): it orders the \<open>cartItems\<close> of the context state, as the cart
  page calls it from its latest render.
\<close>

definition placeOrder_cartItems :: "string \<Rightarrow> string \<Rightarrow> string \<Rightarrow> unit io" where
  "placeOrder_cartItems deliveryAddress customerName customerPhone w =
     (case ctx_user w of
        None \<Rightarrow> return () w
      | Some user \<Rightarrow>
          if ctx_cartItems w = [] then return () w
          else
            (let totalAmount = getCartTotal w
             in await (insert_order (u_id user) totalAmount deliveryAddress customerName
                         customerPhone) (\<lambda>res.
                  case res of
                    Err \<Rightarrow> return ()
                  | Data order \<Rightarrow>
                      (let orderItems =
                             map (\<lambda>item.
                                    \<lparr>oi_order_id = o_id order,
                                     oi_product_id = ci_product_id item,
                                     oi_quantity = ci_quantity item,
                                     oi_price = price_or_0 item\<rparr>) (ctx_cartItems w)
                       in await (insert_order_items orderItems) (\<lambda>res.
                            case res of
                              Err \<Rightarrow> return ()
                            | Data _ \<Rightarrow>
                                await (delete_cart_of_user (u_id user)) (\<lambda>res.
                                  case res of
                                    Err \<Rightarrow> return ()
                                  | Data _ \<Rightarrow> refreshCart)))) w))"

section \<open>VoiceAssistant.tsx: the client tools\<close>

text \<open>
  The tools modelled are those of the second definition of the component (the one built on
  \<open>fetchLatestCartState\<close>), and \<open>getPurchaseHistory\<close> of the first, the only full one.

  A message is the template literal of the source, piece by piece: fixed text, and the
  interpolated values in the order they appear. \<open>Fixed2 x\<close> stands for \<open>x.toFixed(2)\<close>.
\<close>

datatype part = Txt string | IntPart int | Fixed2 rat | JsPart jsval | NamePart "string option"

text \<open>The rupee sign of the messages, in UTF-8.\<close>

definition rupee :: string where
  "rupee = [CHR 0xE2, CHR 0x82, CHR 0xB9]"

text \<open>The double quote of the messages.\<close>

definition dq :: string where
  "dq = [CHR 0x22]"

text \<open>An entry of \<open>items\<close> in the answer of \<open>getCartDetails\<close> (\<open>image_url\<close> left out).\<close>

record cart_line =
  cl_id :: nat
  cl_name :: string
  cl_price :: rat
  cl_quantity :: int
  cl_unit :: string
  cl_total :: rat
  cl_stock_quantity :: int

text \<open>An entry of \<open>orders\<close> in the answer of \<open>getPurchaseHistory\<close> (\<open>date\<close> is the raw \<open>created_at\<close>).\<close>

record order_summary =
  os_orderId :: nat
  os_date :: nat
  os_totalAmount :: rat
  os_status :: string
  os_itemCount :: nat
  os_itemSample :: "string list"

text \<open>
  The operation-specific fields of a response:
  \<^item> \<open>CartSummary itemCount totalAmount\<close>: \<open>cartSummary: { itemCount, totalAmount }\<close>;
  \<^item> \<open>AddedItem product matchConfidence itemCount totalAmount\<close>;
  \<^item> \<open>CartDetails items itemCount totalAmount isEmpty\<close>;
  \<^item> \<open>ErrorField error\<close>;
  \<^item> \<open>Orders orders\<close> (\<open>count\<close> is the length);
  \<^item> \<open>SignedIn email cartItemCount cartTotal profileComplete\<close> and \<open>SignedOut\<close>:
    \<open>isSignedIn\<close> with the fields that come with it.
\<close>

datatype payload =
    NoPayload
  | CartSummary int rat
  | AddedItem string confidence int rat
  | CartDetails "cart_line list" int rat bool
  | ErrorField string
  | Orders "order_summary list"
  | SignedIn string int rat bool
  | SignedOut

text \<open>The uniform envelope \<open>{ success, message, ... }\<close>.\<close>

record response =
  success :: bool
  message :: "part list"
  payload :: payload

definition failure :: "part list \<Rightarrow> response" where
  "failure msg = \<lparr>success = False, message = msg, payload = NoPayload\<rparr>"

text \<open>What \<open>fetchLatestCartState\<close> returns.\<close>

record cart_state =
  cs_success :: bool
  cs_items :: "cart_item list"
  cs_totalAmount :: rat
  cs_itemCount :: int
  cs_error :: "string option"

definition fetchLatestCartState :: "string \<Rightarrow> cart_state io" where
  "fetchLatestCartState userId =
     (if userId = [] then
        return \<lparr>cs_success = False, cs_items = [], cs_totalAmount = 0, cs_itemCount = 0,
                cs_error = Some ''User not authenticated''\<rparr>
      else
        try_catch
          (await (select_cart_items userId) (\<lambda>res.
             case res of
               Err \<Rightarrow> throw StorageError
             | Data None \<Rightarrow>
                 return \<lparr>cs_success = True, cs_items = [], cs_totalAmount = 0, cs_itemCount = 0,
                         cs_error = None\<rparr>
             | Data (Some data) \<Rightarrow>
                 (let totalAmount =
                        foldl (\<lambda>total item. total + price_or_0 item * of_int (ci_quantity item))
                          0 data;
                      itemCount = foldl (\<lambda>total item. total + ci_quantity item) 0 data
                  in return \<lparr>cs_success = True, cs_items = data, cs_totalAmount = totalAmount,
                             cs_itemCount = itemCount, cs_error = None\<rparr>)))
          (\<lambda>e. return \<lparr>cs_success = False, cs_items = [], cs_totalAmount = 0, cs_itemCount = 0,
                        cs_error = Some ''Failed to fetch cart state''\<rparr>))"

text \<open>\<open>findProductByName\<close>: \<open>null\<close> for the empty string, else the matcher's answer.\<close>

definition findProductByName :: "host \<Rightarrow> world \<Rightarrow> string \<Rightarrow> match_result option" where
  "findProductByName h w searchName =
     (if searchName = [] then None
      else Some (findProduct (host_fuse h) (ctx_products w) searchName))"

record user_profile =
  full_name :: string
  phone :: string
  address :: string

text \<open>\<open>x || ''\<close> for an optional string.\<close>

definition or_empty :: "string option \<Rightarrow> string" where
  "or_empty x = (case x of None \<Rightarrow> [] | Some s \<Rightarrow> s)"

definition getUserProfile :: "(user_profile option) io" where
  "getUserProfile w =
     (case ctx_user w of
        None \<Rightarrow> return None w
      | Some user \<Rightarrow>
          try_catch
            (await auth_getUser (\<lambda>res.
               case res of
                 Err \<Rightarrow> return None
               | Data md \<Rightarrow>
                   return (Some \<lparr>full_name = or_empty (md_full_name md),
                                 phone = or_empty (md_phone md),
                                 address = or_empty (md_address md)\<rparr>)))
            (\<lambda>e. return None) w)"

text \<open>\<open>x || d\<close> for a string \<open>x\<close> that may be missing.\<close>

definition or_string :: "string option \<Rightarrow> string \<Rightarrow> string" where
  "or_string x d = (case x of None \<Rightarrow> d | Some s \<Rightarrow> if s = [] then d else s)"

definition getCartDetails :: "response io" where
  "getCartDetails w =
     (case ctx_user w of
        None \<Rightarrow> return (failure [Txt ''Please sign in to view your cart.'']) w
      | Some user \<Rightarrow>
          try_catch
            (await (fetchLatestCartState (u_id user)) (\<lambda>latest.
               if \<not> cs_success latest then throw (Error ''Failed to fetch latest cart state.'')
               else
                 (let items = cs_items latest;
                      processedItems =
                        map (\<lambda>item.
                               \<lparr>cl_id = ci_id item,
                                cl_name = or_string (map_option p_name (ci_product item))
                                            ''Unknown Product'',
                                cl_price = price_or_0 item,
                                cl_quantity = ci_quantity item,
                                cl_unit = or_string (map_option p_unit (ci_product item)) ''piece'',
                                cl_total = price_or_0 item * of_int (ci_quantity item),
                                cl_stock_quantity =
                                  (case ci_product item of None \<Rightarrow> 0
                                   | Some p \<Rightarrow> p_stock_quantity p)\<rparr>) items
                  in return
                       \<lparr>success = True,
                        message =
                          (if items = [] then
                             [Txt (''Your cart is empty. You can add items by saying '' @ dq @
                                   ''Add [product name] to cart'' @ dq @ ''.'')]
                           else
                             [Txt ''You have '', IntPart (cs_itemCount latest),
                              Txt ('' items in your cart totaling '' @ rupee),
                              Fixed2 (cs_totalAmount latest), Txt ''.'']),
                        payload = CartDetails processedItems (cs_itemCount latest)
                                    (cs_totalAmount latest) (items = [])\<rparr>)))
            (\<lambda>e. return \<lparr>success = False,
                          message = [Txt ''Failed to get cart details. Please try again.''],
                          payload = ErrorField ''Failed to get cart details''\<rparr>) w)"

text \<open>The closing sentence of the cart-changing tools' messages.\<close>

definition cart_now_has :: "cart_state \<Rightarrow> part list" where
  "cart_now_has latestCart =
     [Txt '' Your cart now has '', IntPart (cs_itemCount latestCart),
      Txt ('' items totaling '' @ rupee), Fixed2 (cs_totalAmount latestCart), Txt ''.'']"

text \<open>
  \<open>addItemToCart({ productName, quantity = 1 })\<close>. The guard before the \<open>try\<close> lets
  through exactly a non-empty string and a signed-in user. The \<open>addToCart\<close> it calls is the
  one the session holds.
\<close>

definition add_validQuantity :: "host \<Rightarrow> jsval \<Rightarrow> int" where
  "add_validQuantity h quantity =
     max 1 (floor (or_number
       (toNumber h (if quantity = JUndefined then JNumber (Num 1) else quantity)) 1))"

definition addItemToCart :: "host \<Rightarrow> jsval \<Rightarrow> jsval \<Rightarrow> response io" where
  "addItemToCart h productName quantity w =
     (case (productName, ctx_user w) of
        (JString name, Some user) \<Rightarrow>
          if name = [] then return (failure [Txt ''Product name is required.'']) w
          else
            try_catch
              (\<lambda>w.
                 let validQuantity = add_validQuantity h quantity in
                 case findProductByName h w (trim name) of
                   None \<Rightarrow> throw TypeError w
                 | Some matchResult \<Rightarrow>
                     (case product matchResult of
                        None \<Rightarrow>
                          return (failure [Txt (''I couldn't find '' @ dq), JsPart productName,
                                           Txt (dq @ ''.'')]) w
                      | Some product' \<Rightarrow>
                          if p_stock_quantity product' < validQuantity then
                            return (failure [Txt ''Sorry, only '',
                                             IntPart (p_stock_quantity product'), Txt '' '',
                                             Txt (p_name product'), Txt '' available.'']) w
                          else
                            await (addToCart (session_cartItems w) (p_id product')
                                     validQuantity) (\<lambda>_.
                            await (background refreshCart) (\<lambda>_.
                            await (fetchLatestCartState (u_id user)) (\<lambda>latestCart.
                              if \<not> cs_success latestCart then
                                return (failure
                                  [Txt ''Item added, but failed to get updated cart totals.''])
                              else
                                (let confidenceNote =
                                       (if confidence matchResult \<noteq> High then
                                          [Txt ('' (I matched '' @ dq), JsPart productName,
                                           Txt (dq @ '' to '' @ dq), Txt (p_name product'),
                                           Txt (dq @ '')'')]
                                        else [])
                                 in return
                                      \<lparr>success = True,
                                       message =
                                         [Txt ''Added '', IntPart validQuantity, Txt '' '',
                                          Txt (p_name product'), Txt '' to your cart'']
                                         @ confidenceNote @ [Txt ''.''] @ cart_now_has latestCart,
                                       payload = AddedItem (p_name product')
                                                   (confidence matchResult)
                                                   (cs_itemCount latestCart)
                                                   (cs_totalAmount latestCart)\<rparr>)))) w))
              (\<lambda>e. return (failure [Txt ''Failed to add item to cart.''])) w
      | (_, None) \<Rightarrow> return (failure [Txt ''Please sign in to add items.'']) w
      | (_, Some user) \<Rightarrow> return (failure [Txt ''Product name is required.'']) w)"

text \<open>
  The end of \<open>updateCartItemQuantity\<close>, from the point where the cart row is found and the
  stock suffices (lines 1450-1477): the write, the re-fetch and the answer.
  \<open>cartItem.product!.id\<close> raises a \<open>TypeError\<close> for an item without its product.
\<close>

definition updateCartItemQuantity_apply :: "app_user \<Rightarrow> cart_item \<Rightarrow> int \<Rightarrow> response io" where
  "updateCartItemQuantity_apply user cartItem validQuantity =
     (case ci_product cartItem of
        None \<Rightarrow> throw TypeError
      | Some cartProduct \<Rightarrow>
          await (if validQuantity = 0 then removeFromCart (p_id cartProduct)
                 else updateCartQuantity (p_id cartProduct) validQuantity) (\<lambda>_.
          await (background refreshCart) (\<lambda>_.
          await (fetchLatestCartState (u_id user)) (\<lambda>latestCart.
            if \<not> cs_success latestCart then
              return (failure [Txt ''Quantity updated, but failed to get updated cart totals.''])
            else
              return
                \<lparr>success = True,
                 message =
                   (if validQuantity = 0 then
                      [Txt ''Removed '', NamePart (Some (p_name cartProduct)),
                       Txt '' from the cart.'']
                    else
                      [Txt ''Updated '', NamePart (Some (p_name cartProduct)),
                       Txt '' quantity to '', IntPart validQuantity, Txt ''.''])
                   @ cart_now_has latestCart,
                 payload = CartSummary (cs_itemCount latestCart) (cs_totalAmount latestCart)\<rparr>))))"

text \<open>
  \<open>updateCartItemQuantity({ productName, quantity })\<close>. The guard before the \<open>try\<close> lets
  through a truthy \<open>productName\<close>, a \<open>quantity\<close> that is not \<open>undefined\<close> and a signed-in user;
  \<open>productName.trim()\<close> raises a \<open>TypeError\<close> when the name is not a string.
\<close>

definition update_validQuantity :: "host \<Rightarrow> jsval \<Rightarrow> int" where
  "update_validQuantity h quantity = floor (or_number (toNumber h quantity) 0)"

definition updateCartItemQuantity :: "host \<Rightarrow> jsval \<Rightarrow> jsval \<Rightarrow> response io" where
  "updateCartItemQuantity h productName quantity w =
     (case ctx_user w of
        None \<Rightarrow> return (failure [Txt ''Please sign in to manage your cart.'']) w
      | Some user \<Rightarrow>
          if \<not> truthy productName \<or> quantity = JUndefined then
            return (failure [Txt ''Product name and quantity are required.'']) w
          else
            try_catch
              (let validQuantity = update_validQuantity h quantity in
               if validQuantity < 0 then return (failure [Txt ''Quantity cannot be negative.''])
               else
                 await (fetchLatestCartState (u_id user)) (\<lambda>initialCart w.
                   if \<not> cs_success initialCart then
                     return (failure [Txt ''Could not check your cart to update the item.'']) w
                   else
                     case productName of
                       JString name \<Rightarrow>
                         (case findProductByName h w (trim name) of
                            None \<Rightarrow> throw TypeError w
                          | Some matchResult \<Rightarrow>
                              (case product matchResult of
                                 None \<Rightarrow>
                                   return (failure [Txt (''I couldn't find a product named '' @ dq),
                                                    JsPart productName, Txt (dq @ ''.'')]) w
                               | Some product' \<Rightarrow>
                                   (case find (\<lambda>item. map_option p_id (ci_product item)
                                                        = Some (p_id product'))
                                           (cs_items initialCart) of
                                      None \<Rightarrow>
                                        return (failure [Txt dq, Txt (p_name product'),
                                                         Txt (dq @ '' is not in your cart.'')]) w
                                    | Some cartItem \<Rightarrow>
                                        (case find (\<lambda>p. Some (p_id p)
                                                          = map_option p_id (ci_product cartItem))
                                                (ctx_products w) of
                                           Some productInDB \<Rightarrow>
                                             if p_stock_quantity productInDB < validQuantity then
                                               return (failure [Txt ''Sorry, only '',
                                                        IntPart (p_stock_quantity productInDB),
                                                        Txt '' '', Txt (p_name productInDB),
                                                        Txt '' available.'']) w
                                             else updateCartItemQuantity_apply user cartItem
                                                    validQuantity w
                                         | None \<Rightarrow>
                                             updateCartItemQuantity_apply user cartItem
                                               validQuantity w))))
                     | _ \<Rightarrow> throw TypeError w))
              (\<lambda>e. return (failure [Txt ''Failed to update cart quantity.''])) w)"

text \<open>
  \<open>getUserStatus()\<close>. \<open>isProfileComplete\<close> asks for a phone number and an address of at
  least 10 characters each.
\<close>

definition getUserStatus :: "response io" where
  "getUserStatus w =
     try_catch
       (\<lambda>w.
          case ctx_user w of
            Some user \<Rightarrow>
              await (fetchLatestCartState (u_id user)) (\<lambda>latestCart.
              await getUserProfile (\<lambda>userProfile.
                let isProfileComplete =
                      (case userProfile of
                         None \<Rightarrow> False
                       | Some up \<Rightarrow>
                           phone up \<noteq> [] \<and> 10 \<le> length (phone up) \<and>
                           address up \<noteq> [] \<and> 10 \<le> length (address up))
                in return
                     \<lparr>success = True,
                      message =
                        [Txt ''You are signed in as '', Txt (u_email user),
                         Txt ''. Your cart has '', IntPart (cs_itemCount latestCart),
                         Txt ('' items totaling '' @ rupee), Fixed2 (cs_totalAmount latestCart),
                         Txt ''. '',
                         Txt (if isProfileComplete then ''Your profile is complete.''
                              else ''Please complete your profile to place orders.'')],
                      payload = SignedIn (u_email user) (cs_itemCount latestCart)
                                  (cs_totalAmount latestCart) isProfileComplete\<rparr>)) w
          | None \<Rightarrow>
              return
                \<lparr>success = True,
                 message = [Txt ''You are not signed in. Please sign in to add items to cart and place orders.''],
                 payload = SignedOut\<rparr> w)
       (\<lambda>e. return (failure [Txt ''Failed to get user status.''])) w"

text \<open>
  The query of \<open>getPurchaseHistory\<close>: the user's orders with the product names of their
  items. With an \<open>orderId\<close> it asks for \<open>.single()\<close> row, an error unless exactly one row
  matches; otherwise the newest orders first, at most \<open>limit\<close>.
\<close>

record order_view =
  ov_id :: nat
  ov_created_at :: nat
  ov_total_amount :: rat
  ov_status :: string
  ov_order_items :: "string option list"

definition order_with_items :: "world \<Rightarrow> order_row \<Rightarrow> order_view" where
  "order_with_items w r =
     \<lparr>ov_id = o_id r, ov_created_at = o_created_at r, ov_total_amount = o_total_amount r,
      ov_status = o_status r,
      ov_order_items =
        map (\<lambda>i. map_option p_name (find (\<lambda>p. p_id p = oi_product_id i) (db_products w)))
          (filter (\<lambda>i. oi_order_id i = o_id r) (db_order_items w))\<rparr>"

definition select_orders :: "string \<Rightarrow> nat option \<Rightarrow> nat \<Rightarrow> (order_view list option) reply io" where
  "select_orders userId orderId limit =
     storage_call (\<lambda>w.
       let own = filter (\<lambda>r. o_user_id r = userId) (db_orders w) in
       case orderId of
         Some oid \<Rightarrow>
           (case filter (\<lambda>r. o_id r = oid) own of
              [r] \<Rightarrow> (Data (Some [order_with_items w r]), w)
            | _ \<Rightarrow> (Err, w))
       | None \<Rightarrow>
           (Data (Some (map (order_with_items w) (take limit (rev (sort_key o_created_at own))))),
            w))"

text \<open>
  \<open>getPurchaseHistory({ limit = 3, orderId = null })\<close> (first definition of the component,
  lines 709-788). An \<open>orderId\<close> of 0 is falsy and counts as absent.
\<close>

definition getPurchaseHistory :: "nat option \<Rightarrow> nat option \<Rightarrow> response io" where
  "getPurchaseHistory limit orderId w =
     (case ctx_user w of
        None \<Rightarrow>
          return (failure [Txt ''You must be signed in to view your order history.'']) w
      | Some user \<Rightarrow>
          try_catch
            (let wanted = (case orderId of Some oid \<Rightarrow> if oid = 0 then None else Some oid
                           | None \<Rightarrow> None)
             in await (select_orders (u_id user) wanted (case limit of None \<Rightarrow> 3 | Some n \<Rightarrow> n))
                  (\<lambda>res.
                     case res of
                       Err \<Rightarrow> throw StorageError
                     | Data None \<Rightarrow>
                         return (failure
                           (case wanted of
                              Some oid \<Rightarrow> [Txt ''Could not find an order with ID #'',
                                           IntPart (int oid), Txt ''.'']
                            | None \<Rightarrow> [Txt ''You have no past orders.'']))
                     | Data (Some orders) \<Rightarrow>
                         (let formattedOrders =
                                map (\<lambda>order.
                                       \<lparr>os_orderId = ov_id order, os_date = ov_created_at order,
                                        os_totalAmount = ov_total_amount order,
                                        os_status = ov_status order,
                                        os_itemCount = length (ov_order_items order),
                                        os_itemSample =
                                          filter (\<lambda>n. n \<noteq> [])
                                            (map or_empty (take 3 (ov_order_items order)))\<rparr>)
                                  orders
                          in return
                               \<lparr>success = True,
                                message = [Txt ''Found '', IntPart (int (length formattedOrders)),
                                           Txt '' order(s).''],
                                payload = Orders formattedOrders\<rparr>)))
            (\<lambda>e. return (failure
                      [Txt ''There was an error trying to fetch your order history.''])) w)"

section \<open>Sample data for the closed examples\<close>

text \<open>
  A stand-in for the Fuse.js index in the examples: every product whose lower-cased name
  contains the lower-cased query is a hit with distance score 0.
\<close>

definition sample_fuse :: fuse_search where
  "sample_fuse products query limit =
     take limit (map (\<lambda>p. (p, 0))
       (filter (\<lambda>p. includes_str (toLowerCase (p_name p)) (toLowerCase query)) products))"

definition apples :: product where
  "apples = \<lparr>p_id = ''p1'', p_name = ''Apples'', p_description = Some ''Crisp red apples'',
     p_price = 120, p_stock_quantity = 30, p_unit = ''kg''\<rparr>"

definition milk :: product where
  "milk = \<lparr>p_id = ''p2'', p_name = ''Milk'', p_description = Some ''Fresh whole milk'',
     p_price = 60, p_stock_quantity = 5, p_unit = ''litre''\<rparr>"

definition milk_lower :: product where
  "milk_lower = \<lparr>p_id = ''p3'', p_name = ''milk'', p_description = None,
     p_price = 55, p_stock_quantity = 8, p_unit = ''litre''\<rparr>"

definition cress :: product where
  "cress = \<lparr>p_id = ''p7'', p_name = ''Watercress'', p_description = None,
     p_price = 40, p_stock_quantity = 12, p_unit = ''bunch''\<rparr>"

definition catalog :: "product list" where
  "catalog = [apples, milk]"

text \<open>
  A stand-in for \<open>StringToNumber\<close> in the examples: a string of decimal digits, white
  space around it ignored, reads as that number, the blank string as 0 and every other
  string as \<open>NaN\<close>.
\<close>

fun decimal_digits :: "nat \<Rightarrow> string \<Rightarrow> nat option" where
  "decimal_digits acc [] = Some acc"
| "decimal_digits acc (c # cs) =
     (case map_of (zip ''0123456789'' [0, 1, 2, 3, 4, 5, 6, 7, 8, 9]) c of
        None \<Rightarrow> None
      | Some d \<Rightarrow> decimal_digits (10 * acc + d) cs)"

definition decimal_literal :: "string \<Rightarrow> jsnum" where
  "decimal_literal s =
     (case decimal_digits 0 (trim s) of
        None \<Rightarrow> NaN
      | Some n \<Rightarrow> Num (of_nat n))"

definition sample_host :: host where
  "sample_host = \<lparr>host_StringToNumber = decimal_literal, host_fuse = sample_fuse\<rparr>"

definition shopper :: app_user where
  "shopper = \<lparr>u_id = ''u1'', u_email = ''asha@example.com''\<rparr>"

text \<open>
  A signed-in shopper with a complete profile, an empty cart and no orders, in a voice
  session started with that empty cart.
\<close>

definition shop :: world where
  "shop =
     \<lparr>ctx_user = Some shopper, ctx_products = catalog, ctx_cartItems = [],
      session_cartItems = [],
      db_products = catalog, db_cart_items = [], db_orders = [], db_order_items = [],
      db_serial = 1,
      auth_metadata = \<lparr>md_full_name = Some ''Asha Rao'', md_phone = Some ''9876543210'',
                        md_address = Some ''12 Lake Road, Pune''\<rparr>,
      outcomes = []\<rparr>"

text \<open>
  The same shop with 2 Apples and 1 Milk in the cart, the context state in step, in a
  voice session started with that cart.
\<close>

definition apples_row :: cart_row where
  "apples_row = \<lparr>cr_id = 1, cr_user_id = ''u1'', cr_product_id = ''p1'', cr_quantity = 2\<rparr>"

definition milk_row :: cart_row where
  "milk_row = \<lparr>cr_id = 2, cr_user_id = ''u1'', cr_product_id = ''p2'', cr_quantity = 1\<rparr>"

definition shop_with_cart :: world where
  "shop_with_cart =
     shop\<lparr>db_cart_items := [apples_row, milk_row],
          ctx_cartItems := [join_product shop apples_row, join_product shop milk_row],
          session_cartItems := [join_product shop apples_row, join_product shop milk_row],
          db_serial := 3\<rparr>"

section \<open>Properties of the string helpers\<close>

lemma is_space_lower_char: "is_space (lower_char c) = is_space c"
  unfolding is_space_def lower_char_def
  by (auto split: option.splits if_splits)

lemma trim_toLowerCase: "trim (toLowerCase s) = toLowerCase (trim s)"
  by (simp add: trim_def toLowerCase_def dropWhile_map rev_map comp_def is_space_lower_char)

lemma trim_all_space: "\<forall>c\<in>set q. is_space c \<Longrightarrow> trim q = []"
  by (auto simp: trim_def dest: set_dropWhileD)

lemma dropWhile_hd: "xs \<noteq> [] \<Longrightarrow> \<not> P (hd xs) \<Longrightarrow> dropWhile P xs = xs"
  by (cases xs) auto

lemma trim_id:
  assumes "s \<noteq> []" and "\<not> is_space (hd s)" and "\<not> is_space (last s)"
  shows "trim s = s"
proof -
  have front: "dropWhile is_space s = s"
    using assms by (simp add: dropWhile_hd)
  have "dropWhile is_space (rev s) = rev s"
    using assms by (intro dropWhile_hd) (simp_all add: hd_rev)
  with front show ?thesis by (simp add: trim_def)
qed

lemma lower_append_s: "toLowerCase (n @ ''s'') = toLowerCase n @ ''s''"
  by (simp add: toLowerCase_def lower_char_def)

lemma endsWith_append_s: "endsWith (n @ ''s'') ''s''"
  by (simp add: endsWith_def)

lemma trim_append_s:
  assumes "n = [] \<or> \<not> is_space (hd n)"
  shows "trim (n @ ''s'') = n @ ''s''"
  using assms by (intro trim_id) (auto simp: is_space_def hd_append)

lemma find_first_same_key:
  "P \<in> set xs \<Longrightarrow> distinct (map f xs) \<Longrightarrow> find (\<lambda>p. f p = f P) xs = Some P"
  by (induction xs) auto

lemma find_exists: "P \<in> set xs \<Longrightarrow> Q P \<Longrightarrow> \<exists>R. find Q xs = Some R"
  by (induction xs) auto

lemma find_cong_set: "(\<And>x. x \<in> set xs \<Longrightarrow> Q x = R x) \<Longrightarrow> find Q xs = find R xs"
  by (induction xs) auto

section \<open>The fuzzy matcher\<close>

text \<open>
  C4. For every catalog and every index, \<open>findProduct\<close> on an empty or white-space-only
  query returns no product, confidence \<open>none\<close> and no alternatives, with the tag
  \<open>empty_query\<close>. The function is total: on these queries it returns before any later
  strategy is consulted, so nothing can raise.
\<close>

theorem findProduct_empty_query:
  assumes "\<forall>c\<in>set q. is_space c"
  shows "findProduct fuse products q =
    \<lparr>product = None, confidence = NoConfidence, alternatives = [], matchType = EmptyQuery\<rparr>"
  using assms by (simp add: findProduct_def trim_all_space)

theorem findProduct_empty_query_witness:
  "findProduct sample_fuse catalog [] =
     \<lparr>product = None, confidence = NoConfidence, alternatives = [], matchType = EmptyQuery\<rparr> \<and>
   findProduct sample_fuse catalog ''   '' =
     \<lparr>product = None, confidence = NoConfidence, alternatives = [], matchType = EmptyQuery\<rparr>"
  using findProduct_empty_query [of "[]" sample_fuse catalog]
    findProduct_empty_query [of "''   ''" sample_fuse catalog]
  by (simp add: is_space_def)

text \<open>
  C3, as stated, fails: with two products named \<open>Milk\<close> and \<open>milk\<close>, the query \<open>milk\<close>, the
  second product's own name, resolves to the first product.
\<close>

theorem findProduct_own_name_counterexample:
  "milk_lower \<in> set [milk, milk_lower] \<and>
   product (findProduct sample_fuse [milk, milk_lower] (p_name milk_lower)) = Some milk \<and>
   milk \<noteq> milk_lower"
  by (simp add: milk_def milk_lower_def findProduct_def trim_def is_space_def toLowerCase_def
      lower_char_def)

text \<open>
  White space in front of a name is trimmed away from the query, so a product with such a
  name is not found by the exact strategy either.
\<close>

lemma own_name_needs_trimmed:
  "confidence (findProduct fuse [milk\<lparr>p_name := '' Milk''\<rparr>] '' Milk'') \<noteq> Exact"
  by (simp add: milk_def findProduct_def trim_def is_space_def toLowerCase_def lower_char_def
      endsWith_def cleanSearch_def startsWith_def Let_def split: list.splits)

text \<open>
  C3, amended. For every catalog and every product \<open>P\<close> in it whose name is not empty and
  neither starts nor ends with white space, \<open>findProduct(P.name, catalog)\<close> answers by the
  exact strategy (case-insensitive equality, before any later strategy), with confidence
  \<open>exact\<close> and no alternatives, and returns the first product of the catalog whose name
  equals \<open>P.name\<close> ignoring case. That product is \<open>P\<close> itself when the names of the catalog
  are pairwise different ignoring case.
\<close>

theorem findProduct_own_name:
  assumes "P \<in> set products"
    and "p_name P \<noteq> []" and "\<not> is_space (hd (p_name P))" and "\<not> is_space (last (p_name P))"
  shows "find (\<lambda>p. toLowerCase (p_name p) = toLowerCase (p_name P)) products \<noteq> None \<and>
    findProduct fuse products (p_name P) =
      \<lparr>product = find (\<lambda>p. toLowerCase (p_name p) = toLowerCase (p_name P)) products,
       confidence = Exact, alternatives = [], matchType = ExactMatch\<rparr> \<and>
    (distinct (map (\<lambda>p. toLowerCase (p_name p)) products) \<longrightarrow>
       find (\<lambda>p. toLowerCase (p_name p) = toLowerCase (p_name P)) products = Some P)"
proof -
  have t: "trim (p_name P) = p_name P"
    using assms by (simp add: trim_id)
  obtain R where R: "find (\<lambda>p. toLowerCase (p_name p) = toLowerCase (p_name P)) products = Some R"
    using find_exists [OF assms(1), of "\<lambda>p. toLowerCase (p_name p) = toLowerCase (p_name P)"]
    by auto
  have "findProduct fuse products (p_name P) =
      \<lparr>product = Some R, confidence = Exact, alternatives = [], matchType = ExactMatch\<rparr>"
    using assms(2) t R by (simp add: findProduct_def trim_toLowerCase)
  moreover have "distinct (map (\<lambda>p. toLowerCase (p_name p)) products) \<longrightarrow>
       find (\<lambda>p. toLowerCase (p_name p) = toLowerCase (p_name P)) products = Some P"
    using find_first_same_key [OF assms(1), of "\<lambda>p. toLowerCase (p_name p)"] by simp
  ultimately show ?thesis using R by simp
qed

theorem findProduct_own_name_witness:
  "findProduct sample_fuse catalog ''Milk'' =
     \<lparr>product = Some milk, confidence = Exact, alternatives = [], matchType = ExactMatch\<rparr>"
  using findProduct_own_name [of milk catalog sample_fuse]
  by (simp add: catalog_def apples_def milk_def is_space_def toLowerCase_def lower_char_def)

text \<open>
  C5, as stated, fails: \<open>Watercress\<close> is the only product, so no other product owns the
  alternate form, yet the query \<open>Watercres\<close> (the name with its trailing \<open>s\<close> removed) is not
  answered with confidence \<open>exact\<close>. It still ends in \<open>s\<close>, so Strategy 2 compares the names
  with \<open>watercre\<close> and \<open>watercres\<close> only.
\<close>

theorem findProduct_singular_plural_counterexample:
  "p_name cress = ''Watercres'' @ ''s'' \<and>
   findProduct sample_fuse [cress] ''Watercres'' =
     \<lparr>product = Some cress, confidence = High, alternatives = [],
      matchType = FuzzyMatchScore 0\<rparr>"
  by (simp add: cress_def findProduct_def trim_def is_space_def toLowerCase_def lower_char_def
      endsWith_def cleanSearch_def startsWith_def search_def sample_fuse_def)

text \<open>Whatever the index returns, that query is never answered with confidence \<open>exact\<close>.\<close>

lemma findProduct_strip_s_never_exact:
  "confidence (findProduct fuse [cress] ''Watercres'') \<noteq> Exact"
  by (simp add: cress_def findProduct_def trim_def is_space_def toLowerCase_def lower_char_def
      endsWith_def cleanSearch_def startsWith_def Let_def split: list.splits)

text \<open>
  C5, amended. Let \<open>P\<close> be the first product of the catalog whose name equals \<open>P.name\<close>
  ignoring case. (1) If \<open>P.name\<close> does not start with white space and no product's name
  equals \<open>P.name + "s"\<close> ignoring case, then \<open>findProduct(P.name + "s", catalog)\<close> returns
  \<open>P\<close> with confidence \<open>exact\<close> by the singular/plural strategy. (2) If \<open>P.name\<close> is \<open>n + "s"\<close>
  where \<open>n\<close> is not empty, neither starts nor ends with white space and does not itself end
  in \<open>s\<close> or \<open>S\<close>, and no product's name equals \<open>n\<close> ignoring case, then
  \<open>findProduct(n, catalog)\<close> returns \<open>P\<close> with confidence \<open>exact\<close> by the same strategy.
\<close>

theorem findProduct_singular_plural:
  assumes first: "find (\<lambda>p. toLowerCase (p_name p) = toLowerCase (p_name P)) products = Some P"
  shows
    "((p_name P = [] \<or> \<not> is_space (hd (p_name P))) \<and>
      (\<forall>Q\<in>set products. toLowerCase (p_name Q) \<noteq> toLowerCase (p_name P @ ''s''))
      \<longrightarrow> findProduct fuse products (p_name P @ ''s'') =
           \<lparr>product = Some P, confidence = Exact, alternatives = [],
            matchType = SingularPluralMatch\<rparr>) \<and>
     (p_name P = n @ ''s'' \<and> n \<noteq> [] \<and> \<not> is_space (hd n) \<and> \<not> is_space (last n) \<and>
      \<not> endsWith (toLowerCase n) ''s'' \<and>
      (\<forall>Q\<in>set products. toLowerCase (p_name Q) \<noteq> toLowerCase n)
      \<longrightarrow> findProduct fuse products n =
           \<lparr>product = Some P, confidence = Exact, alternatives = [],
            matchType = SingularPluralMatch\<rparr>)"
proof (intro conjI impI)
  let ?nm = "p_name P"
  assume h: "(?nm = [] \<or> \<not> is_space (hd ?nm)) \<and>
      (\<forall>Q\<in>set products. toLowerCase (p_name Q) \<noteq> toLowerCase (?nm @ ''s''))"
  have t: "trim (?nm @ ''s'') = ?nm @ ''s''"
    using h by (simp add: trim_append_s)
  have none: "find (\<lambda>p. toLowerCase (p_name p) = toLowerCase ?nm @ ''s'') products = None"
    using h by (simp add: find_None_iff lower_append_s)
  have eq: "find (\<lambda>p. toLowerCase (p_name p) = toLowerCase ?nm \<or>
                  toLowerCase (p_name p) = toLowerCase ?nm @ ''s'') products =
            find (\<lambda>p. toLowerCase (p_name p) = toLowerCase ?nm) products"
    using h by (intro find_cong_set) (simp add: lower_append_s)
  have "trim (toLowerCase (?nm @ ''s'')) = toLowerCase (trim (?nm @ ''s''))"
    by (rule trim_toLowerCase)
  then have norm: "trim (toLowerCase (?nm @ ''s'')) = toLowerCase ?nm @ ''s''"
    by (simp only: t lower_append_s)
  have ne: "trim (?nm @ ''s'') \<noteq> []"
    using t by simp
  show "findProduct fuse products (?nm @ ''s'') =
      \<lparr>product = Some P, confidence = Exact, alternatives = [], matchType = SingularPluralMatch\<rparr>"
    unfolding findProduct_def norm Let_def
    using ne none eq first by (simp add: endsWith_append_s)
next
  assume h: "p_name P = n @ ''s'' \<and> n \<noteq> [] \<and> \<not> is_space (hd n) \<and> \<not> is_space (last n) \<and>
      \<not> endsWith (toLowerCase n) ''s'' \<and>
      (\<forall>Q\<in>set products. toLowerCase (p_name Q) \<noteq> toLowerCase n)"
  have t: "trim n = n"
    using h by (simp add: trim_id)
  have none: "find (\<lambda>p. toLowerCase (p_name p) = toLowerCase n) products = None"
    using h by (simp add: find_None_iff)
  have eq: "find (\<lambda>p. toLowerCase (p_name p) = toLowerCase n \<or>
                  toLowerCase (p_name p) = toLowerCase n @ ''s'') products =
            find (\<lambda>p. toLowerCase (p_name p) = toLowerCase (p_name P)) products"
    using h by (intro find_cong_set) (simp add: lower_append_s)
  have norm: "trim (toLowerCase n) = toLowerCase n"
    by (simp only: trim_toLowerCase t)
  have ne: "trim n \<noteq> []"
    using t h by simp
  show "findProduct fuse products n =
      \<lparr>product = Some P, confidence = Exact, alternatives = [], matchType = SingularPluralMatch\<rparr>"
    unfolding findProduct_def norm Let_def
    using ne none eq first h by simp
qed

theorem findProduct_singular_plural_witness:
  "findProduct sample_fuse catalog (''Milk'' @ ''s'') =
     \<lparr>product = Some milk, confidence = Exact, alternatives = [],
      matchType = SingularPluralMatch\<rparr> \<and>
   findProduct sample_fuse catalog ''Apple'' =
     \<lparr>product = Some apples, confidence = Exact, alternatives = [],
      matchType = SingularPluralMatch\<rparr>"
  using findProduct_singular_plural [where P = milk and products = catalog
      and fuse = sample_fuse and n = "[]"]
    findProduct_singular_plural [where P = apples and products = catalog
      and n = "''Apple''" and fuse = sample_fuse]
  by (simp add: catalog_def apples_def milk_def is_space_def toLowerCase_def lower_char_def
      endsWith_def)

section \<open>Storage calls, step by step\<close>

lemma foldl_add_sum:
  fixes f :: "'a \<Rightarrow> 'b::comm_monoid_add"
  shows "foldl (\<lambda>t x. t + f x) a xs = a + sum_list (map f xs)"
  by (induction xs arbitrary: a) (simp_all add: add.assoc)

lemma advance_fields [simp]:
  "ctx_user (advance w) = ctx_user w"
  "ctx_products (advance w) = ctx_products w"
  "ctx_cartItems (advance w) = ctx_cartItems w"
  "session_cartItems (advance w) = session_cartItems w"
  "db_products (advance w) = db_products w"
  "db_cart_items (advance w) = db_cart_items w"
  "db_orders (advance w) = db_orders w"
  "db_order_items (advance w) = db_order_items w"
  "db_serial (advance w) = db_serial w"
  "auth_metadata (advance w) = auth_metadata w"
  "outcomes (advance w) = tl (outcomes w)"
  by (simp_all add: advance_def next_outcome_def split: list.splits)

lemma advance_no_outcomes [simp]: "outcomes w = [] \<Longrightarrow> advance w = w"
  by (simp add: advance_def next_outcome_def)

lemma next_succeeds_no_outcomes [simp]: "outcomes w = [] \<Longrightarrow> next_succeeds w"
  by (simp add: next_succeeds_def next_outcome_def)

lemma next_succeeds_cong: "outcomes a = outcomes b \<Longrightarrow> next_succeeds a = next_succeeds b"
  by (simp add: next_succeeds_def next_outcome_def split: list.splits)

lemma storage_call_eq:
  "storage_call run w =
     (case fst (next_outcome w) of
        Throws \<Rightarrow> (Inl StorageError, advance w)
      | ReturnsError \<Rightarrow> (Inr Err, advance w)
      | Succeeds \<Rightarrow> (Inr (fst (run (advance w))), snd (run (advance w))))"
  by (cases "next_outcome w") (simp add: storage_call_def advance_def split: outcome.splits prod.splits)

lemma storage_call_succeeds:
  "next_succeeds w \<Longrightarrow>
   storage_call run w = (Inr (fst (run (advance w))), snd (run (advance w)))"
  by (simp add: storage_call_eq next_succeeds_def)

lemma storage_call_frame:
  assumes "\<And>v. f (snd (run v)) = f v" and "f (advance w) = f w"
  shows "f (snd (storage_call run w)) = f w"
  using assms by (simp add: storage_call_eq split: outcome.splits)

lemma await_frame:
  assumes "\<And>v. f (snd (m v)) = f v" and "\<And>x v. f (snd (k x v)) = f v"
  shows "f (snd (await m k w)) = f w"
proof (cases "m w")
  case (Pair r w')
  have "f w' = f w" using assms(1) [of w] Pair by simp
  then show ?thesis using Pair assms(2) by (cases r) (simp_all add: await_def)
qed

lemma await_Inr: "m w = (Inr x, w') \<Longrightarrow> await m k w = k x w'"
  by (simp add: await_def)

lemma await_Inl: "m w = (Inl e, w') \<Longrightarrow> await m k w = (Inl e, w')"
  by (simp add: await_def)

lemma storage_call_error:
  "fst (next_outcome w) = ReturnsError \<Longrightarrow> storage_call run w = (Inr Err, advance w)"
  by (simp add: storage_call_eq)

lemma next_outcome_cong:
  "outcomes a = outcomes b \<Longrightarrow> fst (next_outcome a) = fst (next_outcome b)"
  by (simp add: next_outcome_def split: list.splits)

lemma select_cart_items_orders [simp]:
  "db_orders (snd (select_cart_items uid w)) = db_orders w"
  "db_order_items (snd (select_cart_items uid w)) = db_order_items w"
  unfolding select_cart_items_def by (rule storage_call_frame; simp)+

lemma refreshCart_orders [simp]:
  "db_orders (snd (refreshCart w)) = db_orders w"
  "db_order_items (snd (refreshCart w)) = db_order_items w"
proof -
  have "db_orders (snd (refreshCart w)) = db_orders w \<and>
        db_order_items (snd (refreshCart w)) = db_order_items w"
  proof (cases "ctx_user w")
    case None
    then show ?thesis by (simp add: refreshCart_def return_def)
  next
    case (Some u)
    obtain r w' where s: "select_cart_items (u_id u) w = (r, w')"
      by (cases "select_cart_items (u_id u) w")
    have "db_orders w' = db_orders w" "db_order_items w' = db_order_items w"
      using select_cart_items_orders [of "u_id u" w] s by simp_all
    then show ?thesis using Some s
      by (cases r) (simp_all add: refreshCart_def await_def return_def split: reply.splits)
  qed
  then show "db_orders (snd (refreshCart w)) = db_orders w"
    "db_order_items (snd (refreshCart w)) = db_order_items w" by simp_all
qed

lemma delete_cart_of_user_orders [simp]:
  "db_orders (snd (delete_cart_of_user uid w)) = db_orders w"
  "db_order_items (snd (delete_cart_of_user uid w)) = db_order_items w"
  unfolding delete_cart_of_user_def by (rule storage_call_frame; simp)+

lemma join_product_advance [simp]: "join_product (advance w) = join_product w"
  by (rule ext) (simp add: join_product_def)

lemma cart_rows_of_advance [simp]: "cart_rows_of (advance w) = cart_rows_of w"
  by (rule ext) (simp add: cart_rows_of_def)


section \<open>The cart state accessor\<close>

text \<open>
  C6. \<open>fetchLatestCartState(userId)\<close> never throws: it always returns a result. In that
  result \<open>totalAmount\<close> is the sum over the returned items of price times quantity (the price
  of an item without its product counting as 0) and \<open>itemCount\<close> is the sum of the
  quantities. With a user id and a fetch that succeeds the result is a success carrying the
  user's rows; with an empty user id, or when the fetch returns an error or throws, it is
  the failure indicator: \<open>success: false\<close>, no items, both totals 0.
\<close>

theorem fetchLatestCartState_totals:
  "\<exists>r w'. fetchLatestCartState userId w = (Inr r, w') \<and>
     cs_totalAmount r = (\<Sum>item\<leftarrow>cs_items r. price_or_0 item * of_int (ci_quantity item)) \<and>
     cs_itemCount r = (\<Sum>item\<leftarrow>cs_items r. ci_quantity item) \<and>
     (userId \<noteq> [] \<and> next_succeeds w \<longrightarrow>
        cs_success r \<and>
        cs_items r = cart_rows_of w userId) \<and>
     (userId = [] \<or> \<not> next_succeeds w \<longrightarrow>
        \<not> cs_success r \<and> cs_items r = [] \<and> cs_totalAmount r = 0 \<and> cs_itemCount r = 0)"
proof (cases "userId = []")
  case True
  then show ?thesis by (simp add: fetchLatestCartState_def return_def)
next
  case False
  then show ?thesis
    by (cases "fst (next_outcome w)")
      (simp_all add: fetchLatestCartState_def select_cart_items_def storage_call_eq await_def
        try_catch_def return_def throw_def foldl_add_sum next_succeeds_def)
qed

text \<open>
  In the first example the two rows hold 3 units, so \<open>itemCount\<close> is 3 and not the
  number of rows.
\<close>

theorem fetchLatestCartState_totals_witness:
  "(\<exists>r w'. fetchLatestCartState ''u1'' shop_with_cart = (Inr r, w') \<and> cs_success r \<and>
      length (cs_items r) = 2 \<and> cs_totalAmount r = 300 \<and> cs_itemCount r = 3) \<and>
   (\<exists>r w'.
      fetchLatestCartState ''u1'' (shop_with_cart\<lparr>outcomes := [Throws]\<rparr>) = (Inr r, w') \<and>
      \<not> cs_success r \<and> cs_items r = [] \<and> cs_totalAmount r = 0 \<and> cs_itemCount r = 0) \<and>
   (\<exists>r w'. fetchLatestCartState [] shop_with_cart = (Inr r, w') \<and>
      \<not> cs_success r \<and> cs_items r = [] \<and> cs_totalAmount r = 0 \<and> cs_itemCount r = 0)"
proof (intro conjI)
  have ok: "next_succeeds shop_with_cart"
    by (simp add: shop_with_cart_def shop_def)
  show "\<exists>r w'. fetchLatestCartState ''u1'' shop_with_cart = (Inr r, w') \<and> cs_success r \<and>
      length (cs_items r) = 2 \<and> cs_totalAmount r = 300 \<and> cs_itemCount r = 3"
    using fetchLatestCartState_totals [of "''u1''" shop_with_cart] ok
    by (auto simp: shop_with_cart_def shop_def apples_row_def milk_row_def join_product_def
        cart_rows_of_def catalog_def apples_def milk_def price_or_0_def)
  have bad: "\<not> next_succeeds (shop_with_cart\<lparr>outcomes := [Throws]\<rparr>)"
    by (simp add: next_succeeds_def next_outcome_def)
  show "\<exists>r w'.
      fetchLatestCartState ''u1'' (shop_with_cart\<lparr>outcomes := [Throws]\<rparr>) = (Inr r, w') \<and>
      \<not> cs_success r \<and> cs_items r = [] \<and> cs_totalAmount r = 0 \<and> cs_itemCount r = 0"
    using fetchLatestCartState_totals [of "''u1''" "shop_with_cart\<lparr>outcomes := [Throws]\<rparr>"] bad
    by auto
  show "\<exists>r w'. fetchLatestCartState [] shop_with_cart = (Inr r, w') \<and>
      \<not> cs_success r \<and> cs_items r = [] \<and> cs_totalAmount r = 0 \<and> cs_itemCount r = 0"
    using fetchLatestCartState_totals [of "[]" shop_with_cart] by auto
qed


section \<open>The order placement workflow\<close>

lemma placeOrder_nonempty:
  assumes "ctx_user w = Some user" and "items \<noteq> []"
  shows "placeOrder deliveryAddress customerName customerPhone (Some items) w =
     await (insert_order (u_id user)
              (foldl (\<lambda>sum item. sum + price_or_0 item * of_int (ci_quantity item)) 0 items)
              deliveryAddress customerName customerPhone) (\<lambda>res.
       case res of
         Err \<Rightarrow> throw StorageError
       | Data orderData \<Rightarrow>
           if list_ex (\<lambda>item. ci_product item = None) items then throw TypeError
           else
             await (insert_order_items
                      (map (\<lambda>item. \<lparr>oi_order_id = o_id orderData,
                                     oi_product_id = p_id (the (ci_product item)),
                                     oi_quantity = ci_quantity item,
                                     oi_price = price_or_0 item\<rparr>) items)) (\<lambda>res.
               case res of
                 Err \<Rightarrow> await (delete_order (o_id orderData)) (\<lambda>_. throw StorageError)
               | Data _ \<Rightarrow> await (delete_cart_of_user (u_id user)) (\<lambda>_. refreshCart))) w"
  using assms unfolding placeOrder_def Let_def by simp

text \<open>
  C2. Let \<open>placeOrder\<close> (first definition) be called by a signed-in user with a non-empty
  list of items, each carrying its product, and let the insert of the order and the insert
  of its items succeed. Then, whatever the later calls do, the order row added has as
  \<open>total_amount\<close> the sum over the passed items of product price times quantity, status
  \<open>Pending\<close> and the delivery fields, and the order-item rows added are one per passed item,
  in order, with the item's product id, its quantity and the product's price. No displayed
  total enters: the function takes none.
\<close>

theorem placeOrder_total_and_items:
  assumes user: "ctx_user w = Some user" and ne: "items \<noteq> []"
    and prods: "\<forall>item\<in>set items. ci_product item \<noteq> None"
    and ok1: "next_succeeds w" and ok2: "next_succeeds (advance w)"
  shows "\<exists>res w'.
     placeOrder deliveryAddress customerName customerPhone (Some items) w = (res, w') \<and>
     db_orders w' = db_orders w @
       [\<lparr>o_id = db_serial w, o_user_id = u_id user,
         o_total_amount = (\<Sum>item\<leftarrow>items. price_or_0 item * of_int (ci_quantity item)),
         o_status = ''Pending'', o_delivery_address = deliveryAddress,
         o_customer_name = customerName, o_customer_phone = customerPhone,
         o_created_at = db_serial w\<rparr>] \<and>
     db_order_items w' = db_order_items w @
       map (\<lambda>item. \<lparr>oi_order_id = db_serial w, oi_product_id = p_id (the (ci_product item)),
                    oi_quantity = ci_quantity item, oi_price = p_price (the (ci_product item))\<rparr>)
         items"
proof -
  define row where "row = \<lparr>o_id = db_serial w, o_user_id = u_id user,
         o_total_amount = (\<Sum>item\<leftarrow>items. price_or_0 item * of_int (ci_quantity item)),
         o_status = ''Pending'', o_delivery_address = deliveryAddress,
         o_customer_name = customerName, o_customer_phone = customerPhone,
         o_created_at = db_serial w\<rparr>"
  define rows where "rows = map (\<lambda>item. \<lparr>oi_order_id = db_serial w,
      oi_product_id = p_id (the (ci_product item)),
      oi_quantity = ci_quantity item, oi_price = p_price (the (ci_product item))\<rparr>) items"
  define w1 where
    "w1 = (advance w)\<lparr>db_orders := db_orders w @ [row], db_serial := Suc (db_serial w)\<rparr>"
  define w2 where "w2 = (advance w1)\<lparr>db_order_items := db_order_items w @ rows\<rparr>"
  have noex: "\<not> list_ex (\<lambda>item. ci_product item = None) items"
    using prods by (auto simp: list_ex_iff)
  have price: "\<And>i. i \<in> set items \<Longrightarrow> price_or_0 i = p_price (the (ci_product i))"
    using prods by (auto simp: price_or_0_def)
  have m: "map (\<lambda>item. \<lparr>oi_order_id = o_id row, oi_product_id = p_id (the (ci_product item)),
                    oi_quantity = ci_quantity item, oi_price = price_or_0 item\<rparr>) items = rows"
    unfolding rows_def using price by (intro map_cong) (auto simp: row_def)
  have step1: "insert_order (u_id user)
      (foldl (\<lambda>sum item. sum + price_or_0 item * of_int (ci_quantity item)) 0 items)
      deliveryAddress customerName customerPhone w = (Inr (Data row), w1)"
    using ok1
    by (simp add: insert_order_def storage_call_succeeds Let_def foldl_add_sum row_def w1_def)
  have ok2': "next_succeeds w1"
    using ok2 next_succeeds_cong [of w1 "advance w"] by (simp add: w1_def)
  have step2: "insert_order_items rows w1 = (Inr (Data ()), w2)"
    using ok2' by (simp add: insert_order_items_def storage_call_succeeds w2_def w1_def)
  define w3 where "w3 = snd (await (delete_cart_of_user (u_id user)) (\<lambda>_. refreshCart) w2)"
  have frame: "db_orders w3 = db_orders w2 \<and> db_order_items w3 = db_order_items w2"
    unfolding w3_def by (auto intro!: await_frame)
  have run: "placeOrder deliveryAddress customerName customerPhone (Some items) w =
      await (delete_cart_of_user (u_id user)) (\<lambda>_. refreshCart) w2"
    by (simp add: placeOrder_nonempty [OF user ne] await_def step1 noex m step2)
  have "db_orders w2 = db_orders w @ [row]" "db_order_items w2 = db_order_items w @ rows"
    by (simp_all add: w2_def w1_def)
  with frame run show ?thesis
    unfolding row_def [symmetric] rows_def [symmetric] w3_def
    by (metis prod.collapse)
qed



theorem placeOrder_total_and_items_witness:
  "\<exists>res w'. placeOrder ''12 Lake Road, Pune'' ''Asha Rao'' ''9876543210''
       (Some [join_product shop apples_row, join_product shop milk_row]) shop_with_cart
       = (res, w') \<and>
     db_orders w' =
       [\<lparr>o_id = 3, o_user_id = ''u1'', o_total_amount = 300, o_status = ''Pending'',
         o_delivery_address = ''12 Lake Road, Pune'', o_customer_name = ''Asha Rao'',
         o_customer_phone = ''9876543210'', o_created_at = 3\<rparr>] \<and>
     db_order_items w' =
       [\<lparr>oi_order_id = 3, oi_product_id = ''p1'', oi_quantity = 2, oi_price = 120\<rparr>,
        \<lparr>oi_order_id = 3, oi_product_id = ''p2'', oi_quantity = 1, oi_price = 60\<rparr>]"
  using placeOrder_total_and_items [of shop_with_cart shopper
      "[join_product shop apples_row, join_product shop milk_row]"
      "''12 Lake Road, Pune''" "''Asha Rao''" "''9876543210''"]
  by (simp add: shop_with_cart_def shop_def shopper_def apples_row_def milk_row_def
      join_product_def catalog_def apples_def milk_def price_or_0_def)


text \<open>
  C1 on the second definition of \<open>placeOrder\<close> (lines 564-624): the order insert succeeds and
  the insert of the items returns an error. The function returns normally, the order row
  stays without any item, and \<open>getPurchaseHistory\<close> lists it with 0 items.
\<close>

theorem placeOrder_cartItems_keeps_order_without_items:
  "case placeOrder_cartItems ''12 Lake Road, Pune'' ''Asha Rao'' ''9876543210''
          (shop_with_cart\<lparr>outcomes := [Succeeds, ReturnsError]\<rparr>) of
     (res, w') \<Rightarrow>
       res = Inr () \<and>
       map o_id (db_orders w') = [3] \<and>
       db_order_items w' = [] \<and>
       fst (getPurchaseHistory None None w') =
         Inr \<lparr>success = True,
              message = [Txt ''Found '', IntPart 1, Txt '' order(s).''],
              payload = Orders [\<lparr>os_orderId = 3, os_date = 3, os_totalAmount = 300,
                                 os_status = ''Pending'', os_itemCount = 0,
                                 os_itemSample = []\<rparr>]\<rparr>"
  by code_simp


text \<open>
  Whatever the world, the second definition behaves so when the order insert succeeds and
  the insert of the items returns an error.
\<close>

lemma placeOrder_cartItems_no_rollback:
  assumes user: "ctx_user w = Some user" and ne: "ctx_cartItems w \<noteq> []"
    and ok1: "next_succeeds w"
    and err2: "fst (next_outcome (advance w)) = ReturnsError"
  shows "\<exists>w'. placeOrder_cartItems deliveryAddress customerName customerPhone w = (Inr (), w') \<and>
     db_orders w' = db_orders w @
       [\<lparr>o_id = db_serial w, o_user_id = u_id user, o_total_amount = getCartTotal w,
         o_status = ''Pending'', o_delivery_address = deliveryAddress,
         o_customer_name = customerName, o_customer_phone = customerPhone,
         o_created_at = db_serial w\<rparr>] \<and>
     db_order_items w' = db_order_items w"
proof -
  define row where "row = \<lparr>o_id = db_serial w, o_user_id = u_id user,
         o_total_amount = getCartTotal w,
         o_status = ''Pending'', o_delivery_address = deliveryAddress,
         o_customer_name = customerName, o_customer_phone = customerPhone,
         o_created_at = db_serial w\<rparr>"
  define w1 where
    "w1 = (advance w)\<lparr>db_orders := db_orders w @ [row], db_serial := Suc (db_serial w)\<rparr>"
  have step1: "insert_order (u_id user) (getCartTotal w) deliveryAddress customerName
      customerPhone w = (Inr (Data row), w1)"
    using ok1 by (simp add: insert_order_def storage_call_succeeds Let_def row_def w1_def)
  have "fst (next_outcome w1) = ReturnsError"
    using err2 next_outcome_cong [of w1 "advance w"] by (simp add: w1_def)
  then have step2: "insert_order_items rows w1 = (Inr Err, advance w1)" for rows
    by (simp add: insert_order_items_def storage_call_error)
  have "placeOrder_cartItems deliveryAddress customerName customerPhone w = (Inr (), advance w1)"
    using user ne unfolding placeOrder_cartItems_def Let_def
    by (simp add: await_def step1 step2 return_def)
  then show ?thesis
    by (simp add: w1_def row_def)
qed

text \<open>
  The first definition (lines 241-303) in the same situation: when the compensating delete
  succeeds the order row of this call is gone, with any items, and the error is rethrown.
\<close>

lemma placeOrder_rolls_back:
  assumes user: "ctx_user w = Some user" and ne: "items \<noteq> []"
    and prods: "\<forall>item\<in>set items. ci_product item \<noteq> None"
    and ok1: "next_succeeds w"
    and err2: "fst (next_outcome (advance w)) = ReturnsError"
    and ok3: "next_succeeds (advance (advance w))"
  shows "\<exists>w'. placeOrder deliveryAddress customerName customerPhone (Some items) w
            = (Inl StorageError, w') \<and>
     db_orders w' = filter (\<lambda>r. o_id r \<noteq> db_serial w) (db_orders w) \<and>
     db_order_items w' = filter (\<lambda>r. oi_order_id r \<noteq> db_serial w) (db_order_items w)"
proof -
  define row where "row = \<lparr>o_id = db_serial w, o_user_id = u_id user,
         o_total_amount = (\<Sum>item\<leftarrow>items. price_or_0 item * of_int (ci_quantity item)),
         o_status = ''Pending'', o_delivery_address = deliveryAddress,
         o_customer_name = customerName, o_customer_phone = customerPhone,
         o_created_at = db_serial w\<rparr>"
  define rows where "rows = map (\<lambda>item. \<lparr>oi_order_id = o_id row,
      oi_product_id = p_id (the (ci_product item)),
      oi_quantity = ci_quantity item, oi_price = price_or_0 item\<rparr>) items"
  define w1 where
    "w1 = (advance w)\<lparr>db_orders := db_orders w @ [row], db_serial := Suc (db_serial w)\<rparr>"
  define w3 where
    "w3 = (advance (advance w1))
            \<lparr>db_orders := filter (\<lambda>r. o_id r \<noteq> db_serial w) (db_orders w),
             db_order_items := filter (\<lambda>r. oi_order_id r \<noteq> db_serial w) (db_order_items w)\<rparr>"
  have noex: "\<not> list_ex (\<lambda>item. ci_product item = None) items"
    using prods by (auto simp: list_ex_iff)
  have step1: "insert_order (u_id user)
      (foldl (\<lambda>sum item. sum + price_or_0 item * of_int (ci_quantity item)) 0 items)
      deliveryAddress customerName customerPhone w = (Inr (Data row), w1)"
    using ok1
    by (simp add: insert_order_def storage_call_succeeds Let_def foldl_add_sum row_def w1_def)
  have "fst (next_outcome w1) = ReturnsError"
    using err2 next_outcome_cong [of w1 "advance w"] by (simp add: w1_def)
  then have step2: "insert_order_items rows w1 = (Inr Err, advance w1)"
    by (simp add: insert_order_items_def storage_call_error)
  have "next_succeeds (advance w1)"
    using ok3 next_succeeds_cong [of "advance w1" "advance (advance w)"] by (simp add: w1_def)
  then have step3: "delete_order (o_id row) (advance w1) = (Inr (Data ()), w3)"
    by (simp add: delete_order_def storage_call_succeeds w3_def w1_def row_def)
  have "placeOrder deliveryAddress customerName customerPhone (Some items) w
      = (Inl StorageError, w3)"
    by (simp add: placeOrder_nonempty [OF user ne] await_def step1 noex rows_def [symmetric]
        step2 step3 throw_def)
  then show ?thesis
    by (auto simp: w3_def)
qed

text \<open>\<open>getPurchaseHistory\<close> lists stored orders only, so it does not list the order rolled back.\<close>

lemma filter_single_mem:
  assumes "filter P xs = [x]"
  shows "x \<in> set xs"
proof -
  have "x \<in> set (filter P xs)"
    using assms by simp
  then show ?thesis by simp
qed

lemma getPurchaseHistory_lists_stored_orders:
  assumes "getPurchaseHistory limit orderId w = (Inr res, w')" and "payload res = Orders os"
  shows "os_orderId ` set os \<subseteq> o_id ` set (db_orders w)"
proof (cases "ctx_user w")
  case None
  then show ?thesis
    using assms by (auto simp: getPurchaseHistory_def return_def failure_def)
next
  case (Some user)
  show ?thesis
  proof (cases "fst (next_outcome w)")
    case Succeeds
    then show ?thesis
      using assms Some
      by (auto simp: getPurchaseHistory_def try_catch_def await_def select_orders_def
          storage_call_eq return_def throw_def failure_def order_with_items_def Let_def
          split: option.splits list.splits if_splits dest!: in_set_takeD filter_single_mem)
  next
    case ReturnsError
    then show ?thesis
      using assms Some
      by (auto simp: getPurchaseHistory_def try_catch_def await_def select_orders_def
          storage_call_eq return_def throw_def failure_def Let_def)
  next
    case Throws
    then show ?thesis
      using assms Some
      by (auto simp: getPurchaseHistory_def try_catch_def await_def select_orders_def
          storage_call_eq return_def throw_def failure_def Let_def)
  qed
qed

lemma placeOrder_rollback_not_listed:
  assumes user: "ctx_user w = Some user" and ne: "items \<noteq> []"
    and prods: "\<forall>item\<in>set items. ci_product item \<noteq> None"
    and ok1: "next_succeeds w"
    and err2: "fst (next_outcome (advance w)) = ReturnsError"
    and ok3: "next_succeeds (advance (advance w))"
    and placed: "placeOrder deliveryAddress customerName customerPhone (Some items) w = (r, w')"
    and history: "getPurchaseHistory limit orderId w' = (Inr res, w'')" "payload res = Orders os"
  shows "r = Inl StorageError \<and> db_serial w \<notin> os_orderId ` set os"
proof -
  have undone: "r = Inl StorageError"
    "db_orders w' = filter (\<lambda>r. o_id r \<noteq> db_serial w) (db_orders w)"
    using placeOrder_rolls_back [OF user ne prods ok1 err2 ok3,
        of deliveryAddress customerName customerPhone] placed
    by auto
  have "os_orderId ` set os \<subseteq> o_id ` set (db_orders w')"
    using history by (rule getPurchaseHistory_lists_stored_orders)
  then show ?thesis
    using undone by auto
qed

section \<open>The tools\<close>

text \<open>
  C7 on \<open>getUserStatus\<close>: the cart fetch throws, \<open>fetchLatestCartState\<close> turns that into its
  failure indicator, and the tool, which does not look at \<open>success\<close>, answers
  \<open>success: true\<close> with a cart of 0 items.
\<close>

theorem getUserStatus_success_when_fetch_throws:
  "fst (getUserStatus (shop_with_cart\<lparr>outcomes := [Throws]\<rparr>)) =
     Inr \<lparr>success = True,
          message =
            [Txt ''You are signed in as '', Txt ''asha@example.com'', Txt ''. Your cart has '',
             IntPart 0, Txt ('' items totaling '' @ rupee), Fixed2 0, Txt ''. '',
             Txt ''Your profile is complete.''],
          payload = SignedIn ''asha@example.com'' 0 0 True\<rparr>"
  by code_simp


text \<open>On the same world \<open>getCartDetails\<close>, which checks the indicator, answers with a failure.\<close>

lemma getCartDetails_failure_when_fetch_throws:
  "fst (getCartDetails (shop_with_cart\<lparr>outcomes := [Throws]\<rparr>)) =
     Inr \<lparr>success = False,
          message = [Txt ''Failed to get cart details. Please try again.''],
          payload = ErrorField ''Failed to get cart details''\<rparr>"
  by code_simp

text \<open>
  \<open>getUserStatus\<close> answers \<open>success: true\<close> in every world: its two storage calls never
  throw past their own \<open>try\<close>, and it does not look at what they report.
\<close>

lemma fetchLatestCartState_returns:
  "\<exists>r w'. fetchLatestCartState userId w = (Inr r, w')"
  by (cases "fst (next_outcome w)")
    (simp_all add: fetchLatestCartState_def select_cart_items_def storage_call_eq await_def
      try_catch_def return_def throw_def)

lemma getUserProfile_returns:
  "\<exists>r w'. getUserProfile w = (Inr r, w')"
  by (cases "fst (next_outcome w)"; cases "ctx_user w")
    (simp_all add: getUserProfile_def auth_getUser_def storage_call_eq await_def
      try_catch_def return_def)

lemma getUserStatus_always_success:
  "\<exists>res w'. getUserStatus w = (Inr res, w') \<and> success res"
proof (cases "ctx_user w")
  case None
  then show ?thesis
    by (simp add: getUserStatus_def try_catch_def return_def)
next
  case (Some user)
  obtain latest w1 where a: "fetchLatestCartState (u_id user) w = (Inr latest, w1)"
    using fetchLatestCartState_returns by blast
  obtain prof w2 where b: "getUserProfile w1 = (Inr prof, w2)"
    using getUserProfile_returns by blast
  show ?thesis
    using Some a b
    by (simp add: getUserStatus_def try_catch_def await_def return_def Let_def)
qed

text \<open>
  \<open>addItemToCart\<close> with an insert that returns an error: \<open>addToCart\<close> only shows a toast, and
  the tool reports the item as added while the cart stays empty.
\<close>

lemma addItemToCart_success_when_insert_fails:
  "(case addItemToCart sample_host (JString ''Milk'') (JNumber (Num 3))
           (shop\<lparr>outcomes := [ReturnsError]\<rparr>) of
      (r, w') \<Rightarrow>
        (case r of Inr res \<Rightarrow> success res \<and> payload res = AddedItem ''Milk'' Exact 0 0
         | Inl e \<Rightarrow> False) \<and>
        db_cart_items w' = [])"
  by code_simp

text \<open>No tool modelled lets an exception out: each ends in a \<open>catch\<close> that returns.\<close>

lemma try_catch_returns:
  assumes "\<And>e v. \<exists>x v'. h e v = (Inr x, v')"
  shows "\<exists>x w'. try_catch m h w = (Inr x, w')"
proof (cases "m w")
  case (Pair r w1)
  then show ?thesis
    using assms by (cases r) (simp_all add: try_catch_def)
qed

lemma tools_never_throw:
  "\<exists>res w'. getCartDetails w = (Inr res, w')"
  "\<exists>res w'. addItemToCart h productName quantity w = (Inr res, w')"
  "\<exists>res w'. updateCartItemQuantity h productName quantity w = (Inr res, w')"
  "\<exists>res w'. getUserStatus w = (Inr res, w')"
  "\<exists>res w'. getPurchaseHistory limit orderId w = (Inr res, w')"
proof -
  show "\<exists>res w'. getCartDetails w = (Inr res, w')"
    unfolding getCartDetails_def
    by (cases "ctx_user w") (auto simp: return_def intro!: try_catch_returns)
  show "\<exists>res w'. addItemToCart h productName quantity w = (Inr res, w')"
    unfolding addItemToCart_def
    by (cases "ctx_user w"; cases productName)
      (auto simp: return_def intro!: try_catch_returns)
  show "\<exists>res w'. updateCartItemQuantity h productName quantity w = (Inr res, w')"
    unfolding updateCartItemQuantity_def
    by (cases "ctx_user w") (auto simp: return_def intro!: try_catch_returns)
  show "\<exists>res w'. getUserStatus w = (Inr res, w')"
    using getUserStatus_always_success by blast
  show "\<exists>res w'. getPurchaseHistory limit orderId w = (Inr res, w')"
    unfolding getPurchaseHistory_def
    by (cases "ctx_user w") (auto simp: return_def intro!: try_catch_returns)
qed

section \<open>Worlds in which every storage call succeeds\<close>

lemma storage_call_calm:
  "outcomes w = [] \<Longrightarrow> storage_call run w = (Inr (fst (run w)), snd (run w))"
  by (simp add: storage_call_succeeds)

lemma select_cart_items_calm:
  "outcomes w = [] \<Longrightarrow>
   select_cart_items uid w = (Inr (Data (Some (cart_rows_of w uid))), w)"
  by (simp add: select_cart_items_def storage_call_calm)

lemma refreshCart_calm:
  "outcomes w = [] \<Longrightarrow> ctx_user w = Some user \<Longrightarrow>
   refreshCart w = (Inr (), w\<lparr>ctx_cartItems := cart_rows_of w (u_id user)\<rparr>)"
  by (simp add: refreshCart_def await_def select_cart_items_calm return_def)

lemma background_refreshCart_calm:
  "outcomes w = [] \<Longrightarrow> ctx_user w = Some user \<Longrightarrow>
   background refreshCart w = (Inr (), w\<lparr>ctx_cartItems := cart_rows_of w (u_id user)\<rparr>)"
  by (simp add: background_def refreshCart_calm)

lemma fetchLatestCartState_calm:
  "outcomes w = [] \<Longrightarrow> uid \<noteq> [] \<Longrightarrow>
   fetchLatestCartState uid w =
     (Inr \<lparr>cs_success = True, cs_items = cart_rows_of w uid,
           cs_totalAmount =
             (\<Sum>item\<leftarrow>cart_rows_of w uid. price_or_0 item * of_int (ci_quantity item)),
           cs_itemCount = (\<Sum>item\<leftarrow>cart_rows_of w uid. ci_quantity item),
           cs_error = None\<rparr>, w)"
  by (simp add: fetchLatestCartState_def try_catch_def await_def select_cart_items_calm
      return_def foldl_add_sum)

lemma cart_rows_of_ctx [simp]: "cart_rows_of (w\<lparr>ctx_cartItems := c\<rparr>) = cart_rows_of w"
  by (rule ext) (simp add: cart_rows_of_def join_product_def)

lemma updateCartQuantity_calm:
  assumes "outcomes w = []" and "ctx_user w = Some user" and "0 < q"
  shows "updateCartQuantity pid q w =
    (Inr (),
     w\<lparr>db_cart_items :=
          map (\<lambda>r. if cr_user_id r = u_id user \<and> cr_product_id r = pid
                    then r\<lparr>cr_quantity := q\<rparr> else r) (db_cart_items w),
       ctx_cartItems :=
         cart_rows_of
           (w\<lparr>db_cart_items :=
                map (\<lambda>r. if cr_user_id r = u_id user \<and> cr_product_id r = pid
                          then r\<lparr>cr_quantity := q\<rparr> else r) (db_cart_items w)\<rparr>) (u_id user)\<rparr>)"
  using assms
  by (simp add: updateCartQuantity_def update_cart_item_def storage_call_calm await_def
      refreshCart_calm)

lemma removeFromCart_calm:
  assumes "outcomes w = []" and "ctx_user w = Some user"
  shows "removeFromCart pid w =
    (Inr (),
     w\<lparr>db_cart_items :=
          filter (\<lambda>r. \<not> (cr_user_id r = u_id user \<and> cr_product_id r = pid)) (db_cart_items w),
       ctx_cartItems :=
         cart_rows_of
           (w\<lparr>db_cart_items :=
                filter (\<lambda>r. \<not> (cr_user_id r = u_id user \<and> cr_product_id r = pid))
                  (db_cart_items w)\<rparr>) (u_id user)\<rparr>)"
  using assms
  by (simp add: removeFromCart_def delete_cart_item_def storage_call_calm await_def
      refreshCart_calm)

lemma find_over_map: "find P (map f xs) = map_option f (find (\<lambda>x. P (f x)) xs)"
  by (induction xs) auto

lemma find_joined_item:
  assumes row: "r \<in> set (db_cart_items w)" "cr_user_id r = uid" "cr_product_id r = pid"
    and cp: "find (\<lambda>x. p_id x = pid) (db_products w) = Some cp"
  shows "\<exists>item. find (\<lambda>item. map_option p_id (ci_product item) = Some pid) (cart_rows_of w uid)
           = Some item \<and> ci_product item = Some cp"
proof -
  have pid: "p_id cp = pid" using cp by (auto simp: find_Some_iff)
  have key: "map_option p_id (ci_product (join_product w r')) = Some pid \<longleftrightarrow> cr_product_id r' = pid"
    for r'
  proof (cases "cr_product_id r' = pid")
    case True
    then show ?thesis using cp pid by (simp add: join_product_def)
  next
    case False
    then show ?thesis
      by (cases "find (\<lambda>x. p_id x = cr_product_id r') (db_products w)")
        (auto simp: join_product_def find_Some_iff)
  qed
  have "r \<in> set (filter (\<lambda>r. cr_user_id r = uid) (db_cart_items w))"
    using row by simp
  then obtain r'' where r'': "find (\<lambda>r'. cr_product_id r' = pid)
      (filter (\<lambda>r. cr_user_id r = uid) (db_cart_items w)) = Some r''"
    using row(3) find_exists [of r "filter (\<lambda>r. cr_user_id r = uid) (db_cart_items w)"
        "\<lambda>r'. cr_product_id r' = pid"]
    by auto
  then have "cr_product_id r'' = pid" by (auto simp: find_Some_iff)
  then have "ci_product (join_product w r'') = Some cp"
    using cp by (simp add: join_product_def)
  moreover have "find (\<lambda>item. map_option p_id (ci_product item) = Some pid) (cart_rows_of w uid)
      = Some (join_product w r'')"
    unfolding cart_rows_of_def find_over_map key r'' by simp
  ultimately show ?thesis by blast
qed


section \<open>The sample shop\<close>

lemma sample_user: "ctx_user shop_with_cart = Some shopper" "u_id shopper \<noteq> []"
  "outcomes shop_with_cart = []"
  by (simp_all add: shop_with_cart_def shop_def shopper_def)

lemma sample_match:
  "trim ''Milk'' \<noteq> []"
  "product (findProduct (host_fuse sample_host) (ctx_products shop_with_cart) (trim ''Milk''))
     = Some milk"
  by code_simp+

lemma sample_rows:
  "filter (\<lambda>r. cr_user_id r = u_id shopper \<and> cr_product_id r = p_id milk)
     (db_cart_items shop_with_cart) = [milk_row]"
  "find (\<lambda>x. p_id x = p_id milk) (db_products shop_with_cart) = Some milk"
  "ctx_cartItems shop_with_cart = cart_rows_of shop_with_cart (u_id shopper)"
  by code_simp+

lemma sample_stock:
  "\<forall>x\<in>set (ctx_products shop_with_cart). p_id x = p_id milk \<longrightarrow> q \<le> 5 \<longrightarrow> q \<le> p_stock_quantity x"
  by (simp add: shop_with_cart_def shop_def catalog_def apples_def milk_def)

section \<open>updateCartItemQuantity\<close>

lemma trim_Nil [simp]: "trim [] = []"
  by (simp add: trim_def)

lemma stock_check_passes:
  assumes "\<forall>x\<in>set xs. Q x \<longrightarrow> v \<le> p_stock_quantity x"
  shows "(case find Q xs of
            Some productInDB \<Rightarrow> if p_stock_quantity productInDB < v then A productInDB else B
          | None \<Rightarrow> B) = B"
proof (cases "find Q xs")
  case None
  then show ?thesis by simp
next
  case (Some x)
  then have "x \<in> set xs" "Q x"
    by (auto simp: find_Some_iff)
  then show ?thesis using assms Some by auto
qed

lemma updateCartItemQuantity_apply_update:
  assumes calm: "outcomes w = []" and user: "ctx_user w = Some user" and uid: "u_id user \<noteq> []"
    and cp: "ci_product cartItem = Some cp" and v: "0 < v"
  shows "\<exists>r. updateCartItemQuantity_apply user cartItem v w =
      (Inr r,
       w\<lparr>db_cart_items :=
            map (\<lambda>r. if cr_user_id r = u_id user \<and> cr_product_id r = p_id cp
                      then r\<lparr>cr_quantity := v\<rparr> else r) (db_cart_items w),
         ctx_cartItems :=
           cart_rows_of
             (w\<lparr>db_cart_items :=
                  map (\<lambda>r. if cr_user_id r = u_id user \<and> cr_product_id r = p_id cp
                            then r\<lparr>cr_quantity := v\<rparr> else r) (db_cart_items w)\<rparr>)
             (u_id user)\<rparr>) \<and>
     success r \<and>
     take 5 (message r) =
       [Txt ''Updated '', NamePart (Some (p_name cp)), Txt '' quantity to '', IntPart v, Txt ''.'']"
  using assms
  by (simp add: updateCartItemQuantity_apply_def await_def updateCartQuantity_calm
      background_refreshCart_calm fetchLatestCartState_calm return_def)

lemma updateCartItemQuantity_apply_remove:
  assumes calm: "outcomes w = []" and user: "ctx_user w = Some user" and uid: "u_id user \<noteq> []"
    and cp: "ci_product cartItem = Some cp"
  shows "\<exists>r. updateCartItemQuantity_apply user cartItem 0 w =
      (Inr r,
       w\<lparr>db_cart_items :=
            filter (\<lambda>r. \<not> (cr_user_id r = u_id user \<and> cr_product_id r = p_id cp))
              (db_cart_items w),
         ctx_cartItems :=
           cart_rows_of
             (w\<lparr>db_cart_items :=
                  filter (\<lambda>r. \<not> (cr_user_id r = u_id user \<and> cr_product_id r = p_id cp))
                    (db_cart_items w)\<rparr>)
             (u_id user)\<rparr>) \<and>
     success r \<and>
     take 3 (message r) =
       [Txt ''Removed '', NamePart (Some (p_name cp)), Txt '' from the cart.'']"
  using assms
  by (simp add: updateCartItemQuantity_apply_def await_def removeFromCart_calm
      background_refreshCart_calm fetchLatestCartState_calm return_def)

lemma updateCartItemQuantity_reaches_apply:
  assumes user: "ctx_user w = Some user" and uid: "u_id user \<noteq> []" and calm: "outcomes w = []"
    and name: "trim name \<noteq> []"
    and found: "product (findProduct (host_fuse h) (ctx_products w) (trim name)) = Some p"
    and row: "r \<in> set (db_cart_items w)" "cr_user_id r = u_id user" "cr_product_id r = p_id p"
    and cp: "find (\<lambda>x. p_id x = p_id p) (db_products w) = Some cp"
    and defined: "quantity \<noteq> JUndefined"
    and v: "0 \<le> update_validQuantity h quantity"
    and stock: "\<forall>x\<in>set (ctx_products w). p_id x = p_id p \<longrightarrow>
                  update_validQuantity h quantity \<le> p_stock_quantity x"
  shows "\<exists>cartItem. ci_product cartItem = Some cp \<and>
     updateCartItemQuantity h (JString name) quantity w =
       try_catch (updateCartItemQuantity_apply user cartItem (update_validQuantity h quantity))
         (\<lambda>e. return (failure [Txt ''Failed to update cart quantity.''])) w"
proof -
  obtain cartItem where item:
    "find (\<lambda>item. map_option p_id (ci_product item) = Some (p_id p)) (cart_rows_of w (u_id user))
       = Some cartItem" "ci_product cartItem = Some cp"
    using find_joined_item [OF row cp] by blast
  have pid: "p_id cp = p_id p"
    using cp by (auto simp: find_Some_iff)
  have ne: "name \<noteq> []"
    using name by auto
  have st: "(case find (\<lambda>x. p_id x = p_id cp) (ctx_products w) of
            Some productInDB \<Rightarrow>
              if p_stock_quantity productInDB < update_validQuantity h quantity then A productInDB
              else B
          | None \<Rightarrow> B) = B" for A and B :: "(exn + response) \<times> world"
    using stock by (intro stock_check_passes) (simp add: pid)
  have "updateCartItemQuantity h (JString name) quantity w =
       try_catch (updateCartItemQuantity_apply user cartItem (update_validQuantity h quantity))
         (\<lambda>e. return (failure [Txt ''Failed to update cart quantity.''])) w"
    using user ne defined v
    unfolding updateCartItemQuantity_def Let_def
    by (simp add: try_catch_def await_def fetchLatestCartState_calm [OF calm uid]
        findProductByName_def name found item st del: map_option_eq_Some)
  with item(2) show ?thesis by blast
qed


lemma try_catch_Inr: "m w = (Inr x, w') \<Longrightarrow> try_catch m h w = (Inr x, w')"
  by (simp add: try_catch_def)

lemma update_validQuantity_int:
  "q \<noteq> 0 \<Longrightarrow> update_validQuantity h (JNumber (Num (of_int q))) = q"
  by (simp add: update_validQuantity_def)

lemma update_validQuantity_NaN:
  "toNumber h quantity = NaN \<Longrightarrow> update_validQuantity h quantity = 0"
  by (simp add: update_validQuantity_def)

lemma filter_map_update:
  assumes "\<And>r. A (g r) = A r"
  shows "filter A (map (\<lambda>r. if A r then g r else r) xs) = map g (filter A xs)"
  using assms by (induction xs) auto

lemma map_update_idem:
  assumes "\<And>r. A (g r) = A r" and "\<And>r. g (g r) = g r"
  shows "map (\<lambda>r. if A r then g r else r) (map (\<lambda>r. if A r then g r else r) xs)
         = map (\<lambda>r. if A r then g r else r) xs"
  using assms by (induction xs) auto

lemma updateCartItemQuantity_sets:
  assumes user: "ctx_user w = Some user" and uid: "u_id user \<noteq> []" and calm: "outcomes w = []"
    and name: "trim name \<noteq> []"
    and found: "product (findProduct (host_fuse h) (ctx_products w) (trim name)) = Some p"
    and row: "r \<in> set (db_cart_items w)" "cr_user_id r = u_id user" "cr_product_id r = p_id p"
    and cp: "find (\<lambda>x. p_id x = p_id p) (db_products w) = Some cp"
    and q: "0 < q"
    and stock: "\<forall>x\<in>set (ctx_products w). p_id x = p_id p \<longrightarrow> q \<le> p_stock_quantity x"
  shows "\<exists>res. updateCartItemQuantity h (JString name) (JNumber (Num (of_int q))) w =
      (Inr res,
       w\<lparr>db_cart_items :=
            map (\<lambda>r. if cr_user_id r = u_id user \<and> cr_product_id r = p_id p
                      then r\<lparr>cr_quantity := q\<rparr> else r) (db_cart_items w),
         ctx_cartItems :=
           cart_rows_of
             (w\<lparr>db_cart_items :=
                  map (\<lambda>r. if cr_user_id r = u_id user \<and> cr_product_id r = p_id p
                            then r\<lparr>cr_quantity := q\<rparr> else r) (db_cart_items w)\<rparr>)
             (u_id user)\<rparr>) \<and>
     success res"
proof -
  have v: "update_validQuantity h (JNumber (Num (of_int q))) = q"
    using q by (simp add: update_validQuantity_int)
  have pid: "p_id cp = p_id p"
    using cp by (auto simp: find_Some_iff)
  obtain cartItem where item: "ci_product cartItem = Some cp"
    "updateCartItemQuantity h (JString name) (JNumber (Num (of_int q))) w =
       try_catch (updateCartItemQuantity_apply user cartItem q)
         (\<lambda>e. return (failure [Txt ''Failed to update cart quantity.''])) w"
    using updateCartItemQuantity_reaches_apply [OF user uid calm name found row cp,
        of "JNumber (Num (of_int q))"] q stock
    unfolding v by auto
  show ?thesis
    using updateCartItemQuantity_apply_update [OF calm user uid item(1) q]
    unfolding item(2) pid by (auto simp: try_catch_def)
qed

text \<open>
  C8. Let the user be signed in, every storage call succeed, the name resolve to a product
  \<open>p\<close> that has exactly one row in the user's cart, and \<open>q \<ge> 1\<close> not exceed the stock of
  the catalog product(s) with \<open>p\<close>'s id. Then \<open>updateCartItemQuantity(name, q)\<close> succeeds and
  leaves exactly one row for the product, with quantity \<open>q\<close>; a second call with the same
  arguments succeeds and changes nothing at all.
\<close>

theorem updateCartItemQuantity_idempotent:
  assumes user: "ctx_user w = Some user" and uid: "u_id user \<noteq> []" and calm: "outcomes w = []"
    and name: "trim name \<noteq> []"
    and found: "product (findProduct (host_fuse h) (ctx_products w) (trim name)) = Some p"
    and row: "filter (\<lambda>r. cr_user_id r = u_id user \<and> cr_product_id r = p_id p) (db_cart_items w)
                = [row]"
    and cp: "find (\<lambda>x. p_id x = p_id p) (db_products w) = Some cp"
    and q: "1 \<le> q"
    and stock: "\<forall>x\<in>set (ctx_products w). p_id x = p_id p \<longrightarrow> q \<le> p_stock_quantity x"
  shows "\<exists>r1 w1 r2.
     updateCartItemQuantity h (JString name) (JNumber (Num (of_int q))) w = (Inr r1, w1) \<and>
     success r1 \<and>
     updateCartItemQuantity h (JString name) (JNumber (Num (of_int q))) w1 = (Inr r2, w1) \<and>
     success r2 \<and>
     filter (\<lambda>r. cr_user_id r = u_id user \<and> cr_product_id r = p_id p) (db_cart_items w1)
       = [row\<lparr>cr_quantity := q\<rparr>]"
proof -
  let ?A = "\<lambda>r. cr_user_id r = u_id user \<and> cr_product_id r = p_id p"
  let ?g = "\<lambda>r. r\<lparr>cr_quantity := q\<rparr>"
  let ?upd = "map (\<lambda>r. if ?A r then ?g r else r)"
  define w1 where "w1 = w\<lparr>db_cart_items := ?upd (db_cart_items w),
     ctx_cartItems := cart_rows_of (w\<lparr>db_cart_items := ?upd (db_cart_items w)\<rparr>) (u_id user)\<rparr>"
  have q0: "0 < q" using q by simp
  have "row \<in> set (filter ?A (db_cart_items w))"
    using row by simp
  then have r: "row \<in> set (db_cart_items w)" "cr_user_id row = u_id user"
    "cr_product_id row = p_id p"
    by auto
  obtain r1 where first:
    "updateCartItemQuantity h (JString name) (JNumber (Num (of_int q))) w = (Inr r1, w1)"
    "success r1"
    using updateCartItemQuantity_sets [OF user uid calm name found r cp q0 stock]
    unfolding w1_def by blast
  have rows1: "filter ?A (db_cart_items w1) = [?g row]"
    using filter_map_update [of ?A ?g "db_cart_items w"] row by (simp add: w1_def)
  then have "?g row \<in> set (filter ?A (db_cart_items w1))"
    by simp
  then have r': "?g row \<in> set (db_cart_items w1)" "cr_user_id (?g row) = u_id user"
    "cr_product_id (?g row) = p_id p"
    by auto
  have same: "ctx_user w1 = Some user" "outcomes w1 = []"
    "product (findProduct (host_fuse h) (ctx_products w1) (trim name)) = Some p"
    "find (\<lambda>x. p_id x = p_id p) (db_products w1) = Some cp"
    "\<forall>x\<in>set (ctx_products w1). p_id x = p_id p \<longrightarrow> q \<le> p_stock_quantity x"
    using user calm found cp stock by (simp_all add: w1_def)
  have idem: "?upd (db_cart_items w1) = db_cart_items w1"
    using map_update_idem [of ?A ?g "db_cart_items w"] by (simp add: w1_def)
  have restored: "w1\<lparr>db_cart_items := db_cart_items w1,
      ctx_cartItems := cart_rows_of (w1\<lparr>db_cart_items := db_cart_items w1\<rparr>) (u_id user)\<rparr> = w1"
    by (simp add: w1_def cart_rows_of_def join_product_def)
  obtain r2 where second:
    "updateCartItemQuantity h (JString name) (JNumber (Num (of_int q))) w1 = (Inr r2, w1)"
    "success r2"
    using updateCartItemQuantity_sets [OF same(1) uid same(2) name same(3) r' same(4) q0 same(5)]
    unfolding idem restored by blast
  show ?thesis
    using first second rows1 by blast
qed

theorem updateCartItemQuantity_idempotent_witness:
  "\<exists>r1 w1 r2.
     updateCartItemQuantity sample_host (JString ''Milk'') (JNumber (Num (of_int 3))) shop_with_cart
       = (Inr r1, w1) \<and> success r1 \<and>
     updateCartItemQuantity sample_host (JString ''Milk'') (JNumber (Num (of_int 3))) w1
       = (Inr r2, w1) \<and> success r2 \<and>
     filter (\<lambda>r. cr_user_id r = ''u1'' \<and> cr_product_id r = ''p2'') (db_cart_items w1)
       = [\<lparr>cr_id = 2, cr_user_id = ''u1'', cr_product_id = ''p2'', cr_quantity = 3\<rparr>]"
proof -
  have stock: "\<forall>x\<in>set (ctx_products shop_with_cart). p_id x = p_id milk \<longrightarrow> 3 \<le> p_stock_quantity x"
    using sample_stock [of 3] by simp
  show ?thesis
    using updateCartItemQuantity_idempotent [OF sample_user sample_match sample_rows(1,2) _ stock]
    by (simp add: shopper_def milk_def milk_row_def)
qed

text \<open>
  C10. Let \<open>quantity\<close> be defined and \<open>Number(quantity)\<close> be \<open>NaN\<close>. Then the validated
  quantity is 0. If moreover the user is signed in, every storage call succeeds, the name
  resolves to a product \<open>p\<close> with a row in the user's cart, and the stock of the catalog
  product(s) with \<open>p\<close>'s id is not negative, the tool removes every row of the user for the
  product and answers \<open>success: true\<close> with a message that starts \<open>Removed ... from the cart.\<close>
\<close>

theorem updateCartItemQuantity_not_a_number:
  assumes nan: "toNumber h quantity = NaN" and defined: "quantity \<noteq> JUndefined"
    and user: "ctx_user w = Some user" and uid: "u_id user \<noteq> []" and calm: "outcomes w = []"
    and name: "trim name \<noteq> []"
    and found: "product (findProduct (host_fuse h) (ctx_products w) (trim name)) = Some p"
    and row: "r \<in> set (db_cart_items w)" "cr_user_id r = u_id user" "cr_product_id r = p_id p"
    and cp: "find (\<lambda>x. p_id x = p_id p) (db_products w) = Some cp"
    and stock: "\<forall>x\<in>set (ctx_products w). p_id x = p_id p \<longrightarrow> 0 \<le> p_stock_quantity x"
  shows "update_validQuantity h quantity = 0 \<and>
    (\<exists>res w'. updateCartItemQuantity h (JString name) quantity w = (Inr res, w') \<and>
       success res \<and>
       take 3 (message res) =
         [Txt ''Removed '', NamePart (Some (p_name cp)), Txt '' from the cart.''] \<and>
       db_cart_items w' =
         filter (\<lambda>r. \<not> (cr_user_id r = u_id user \<and> cr_product_id r = p_id p)) (db_cart_items w))"
proof -
  have v: "update_validQuantity h quantity = 0"
    using nan by (rule update_validQuantity_NaN)
  have pid: "p_id cp = p_id p"
    using cp by (auto simp: find_Some_iff)
  obtain cartItem where item: "ci_product cartItem = Some cp"
    "updateCartItemQuantity h (JString name) quantity w =
       try_catch (updateCartItemQuantity_apply user cartItem 0)
         (\<lambda>e. return (failure [Txt ''Failed to update cart quantity.''])) w"
    using updateCartItemQuantity_reaches_apply [OF user uid calm name found row cp defined] stock
    unfolding v by auto
  show ?thesis
    using updateCartItemQuantity_apply_remove [OF calm user uid item(1)] v
    unfolding item(2) pid by (auto simp: try_catch_def)
qed


theorem updateCartItemQuantity_not_a_number_witness:
  "update_validQuantity sample_host (JString ''three'') = 0 \<and>
   (\<exists>res w'. updateCartItemQuantity sample_host (JString ''Milk'') (JString ''three'') shop_with_cart
        = (Inr res, w') \<and>
      success res \<and>
      take 3 (message res) = [Txt ''Removed '', NamePart (Some ''Milk''), Txt '' from the cart.''] \<and>
      db_cart_items w' = [apples_row])"
proof -
  have nan: "toNumber sample_host (JString ''three'') = NaN"
    by code_simp
  have row: "milk_row \<in> set (db_cart_items shop_with_cart)" "cr_user_id milk_row = u_id shopper"
    "cr_product_id milk_row = p_id milk"
    by (simp_all add: shop_with_cart_def shop_def milk_row_def shopper_def milk_def)
  have stock: "\<forall>x\<in>set (ctx_products shop_with_cart). p_id x = p_id milk \<longrightarrow> 0 \<le> p_stock_quantity x"
    using sample_stock [of 0] by simp
  have rest: "filter (\<lambda>r. \<not> (cr_user_id r = u_id shopper \<and> cr_product_id r = p_id milk))
      (db_cart_items shop_with_cart) = [apples_row]"
    by code_simp
  show ?thesis
    using updateCartItemQuantity_not_a_number [OF nan _ sample_user sample_match row
        sample_rows(2) stock]
    unfolding rest by (simp add: milk_def)
qed


section \<open>addItemToCart\<close>

lemma add_validQuantity_pos: "1 \<le> add_validQuantity h quantity"
  by (simp add: add_validQuantity_def)

lemma find_in_filter_single:
  "filter (\<lambda>r. A r \<and> B r) xs = [x] \<Longrightarrow> find B (filter A xs) = Some x"
proof (induction xs)
  case Nil
  then show ?case by simp
next
  case (Cons y ys)
  show ?case
  proof (cases "A y \<and> B y")
    case True
    then show ?thesis using Cons.prems by simp
  next
    case False
    then show ?thesis using Cons by auto
  qed
qed

lemma find_existing_item:
  assumes "filter (\<lambda>r. cr_user_id r = uid \<and> cr_product_id r = pid) (db_cart_items w) = [row]"
  shows "find (\<lambda>item. ci_product_id item = pid) (cart_rows_of w uid) = Some (join_product w row)"
proof -
  have "find (\<lambda>r. cr_product_id r = pid) (filter (\<lambda>r. cr_user_id r = uid) (db_cart_items w))
        = Some row"
    using assms by (rule find_in_filter_single)
  then show ?thesis
    by (simp add: cart_rows_of_def find_over_map join_product_def)
qed

text \<open>
  When the cart that the session holds has the product, the call succeeds as soon as the
  validated quantity alone does not exceed the stock, and the user's rows of the product
  are set to the quantity of the held item plus the validated quantity, whatever quantity
  the table has.
\<close>

lemma addItemToCart_adds_to_held_quantity:
  assumes user: "ctx_user w = Some user" and uid: "u_id user \<noteq> []" and calm: "outcomes w = []"
    and name: "trim name \<noteq> []"
    and found: "product (findProduct (host_fuse h) (ctx_products w) (trim name)) = Some p"
    and held: "find (\<lambda>item. ci_product_id item = p_id p) (session_cartItems w) = Some item"
    and q0: "0 \<le> ci_quantity item"
    and stock: "add_validQuantity h quantity \<le> p_stock_quantity p"
  shows "\<exists>res w'. addItemToCart h (JString name) quantity w = (Inr res, w') \<and> success res \<and>
     db_cart_items w' =
       map (\<lambda>r. if cr_user_id r = u_id user \<and> cr_product_id r = p_id p
                 then r\<lparr>cr_quantity := ci_quantity item + add_validQuantity h quantity\<rparr>
                 else r) (db_cart_items w)"
proof -
  let ?k = "add_validQuantity h quantity"
  have ne: "name \<noteq> []"
    using name by auto
  have pos: "0 < ci_quantity item + ?k"
    using q0 add_validQuantity_pos [of h quantity] by simp
  have add: "addToCart (session_cartItems w) (p_id p) ?k w
      = updateCartQuantity (p_id p) (ci_quantity item + ?k) w"
    using user held by (simp add: addToCart_def)
  obtain mr where mr: "findProductByName h w (trim name) = Some mr" "product mr = Some p"
    using name found by (simp add: findProductByName_def)
  show ?thesis
    using user ne stock uid calm
    unfolding addItemToCart_def Let_def
    by (simp add: try_catch_def await_def mr add updateCartQuantity_calm [OF calm user pos]
        background_refreshCart_calm fetchLatestCartState_calm return_def)
qed

text \<open>
  So the first call of a session started with the cart as the table has it, with one row
  of quantity \<open>q0\<close> for the product, sets that row to \<open>q0\<close> plus the validated quantity.
\<close>

lemma addItemToCart_increments:
  assumes user: "ctx_user w = Some user" and uid: "u_id user \<noteq> []" and calm: "outcomes w = []"
    and name: "trim name \<noteq> []"
    and found: "product (findProduct (host_fuse h) (ctx_products w) (trim name)) = Some p"
    and sync: "session_cartItems w = cart_rows_of w (u_id user)"
    and row: "filter (\<lambda>r. cr_user_id r = u_id user \<and> cr_product_id r = p_id p) (db_cart_items w)
                = [row]"
    and q0: "0 \<le> cr_quantity row"
    and stock: "add_validQuantity h quantity \<le> p_stock_quantity p"
  shows "\<exists>res w'. addItemToCart h (JString name) quantity w = (Inr res, w') \<and> success res \<and>
     filter (\<lambda>r. cr_user_id r = u_id user \<and> cr_product_id r = p_id p) (db_cart_items w')
       = [row\<lparr>cr_quantity := cr_quantity row + add_validQuantity h quantity\<rparr>]"
proof -
  let ?k = "add_validQuantity h quantity"
  let ?A = "\<lambda>r. cr_user_id r = u_id user \<and> cr_product_id r = p_id p"
  let ?g = "\<lambda>r. r\<lparr>cr_quantity := cr_quantity row + ?k\<rparr>"
  have held: "find (\<lambda>item. ci_product_id item = p_id p) (session_cartItems w)
      = Some (join_product w row)"
    unfolding sync using row by (rule find_existing_item)
  have q: "ci_quantity (join_product w row) = cr_quantity row"
    by (simp add: join_product_def)
  obtain res w' where run: "addItemToCart h (JString name) quantity w = (Inr res, w')"
      "success res"
      "db_cart_items w' = map (\<lambda>r. if ?A r then ?g r else r) (db_cart_items w)"
    using addItemToCart_adds_to_held_quantity [OF user uid calm name found held _ stock] q0 q
    by auto
  have "filter ?A (map (\<lambda>r. if ?A r then ?g r else r) (db_cart_items w)) = [?g row]"
    using filter_map_update [of ?A ?g "db_cart_items w"] row by simp
  then show ?thesis
    using run by simp
qed

text \<open>
  When the cart that the session holds lacks the product while the table has a row for
  it, \<open>addToCart\<close> inserts, the unique constraint refuses the insert, \<open>addToCart\<close> returns
  after its toast, and the tool answers \<open>success: true\<close> over an unchanged table.
\<close>

lemma insert_cart_item_refused:
  assumes calm: "outcomes w = []"
    and row: "row \<in> set (db_cart_items w)" "cr_user_id row = uid" "cr_product_id row = pid"
  shows "insert_cart_item uid pid q w = (Inr Err, w)"
proof -
  have "list_ex (\<lambda>r. cr_user_id r = uid \<and> cr_product_id r = pid) (db_cart_items w)"
    using row by (auto simp: list_ex_iff)
  then show ?thesis
    using calm by (simp add: insert_cart_item_def storage_call_calm)
qed

lemma addItemToCart_insert_refused:
  assumes user: "ctx_user w = Some user" and uid: "u_id user \<noteq> []" and calm: "outcomes w = []"
    and name: "trim name \<noteq> []"
    and found: "product (findProduct (host_fuse h) (ctx_products w) (trim name)) = Some p"
    and held: "find (\<lambda>item. ci_product_id item = p_id p) (session_cartItems w) = None"
    and row: "row \<in> set (db_cart_items w)" "cr_user_id row = u_id user"
      "cr_product_id row = p_id p"
    and stock: "add_validQuantity h quantity \<le> p_stock_quantity p"
  shows "\<exists>res w'. addItemToCart h (JString name) quantity w = (Inr res, w') \<and> success res \<and>
     db_cart_items w' = db_cart_items w"
proof -
  let ?k = "add_validQuantity h quantity"
  have ne: "name \<noteq> []"
    using name by auto
  have add: "addToCart (session_cartItems w) (p_id p) ?k w = (Inr (), w)"
    using user held
    by (simp add: addToCart_def await_def insert_cart_item_refused [OF calm row] return_def)
  obtain mr where mr: "findProductByName h w (trim name) = Some mr" "product mr = Some p"
    using name found by (simp add: findProductByName_def)
  show ?thesis
    using user ne stock uid calm
    unfolding addItemToCart_def Let_def
    by (simp add: try_catch_def await_def mr add
        background_refreshCart_calm fetchLatestCartState_calm return_def)
qed

text \<open>
  C9 on a voice session started with an empty cart, every storage call succeeding: two
  successive calls adding 3 Milk (stock 5). The first inserts a row of 3. At the second the
  product is in the cart with quantity 3; the call answers \<open>success: true\<close>, \<open>Added 3 Milk to
  your cart\<close>, and the row stays at 3 where the claim has \<open>3 + 3\<close>: the session's \<open>addToCart\<close>
  still sees the empty cart of the session's start and inserts again.
\<close>

theorem addItemToCart_second_add_keeps_quantity:
  "case addItemToCart sample_host (JString ''Milk'') (JNumber (Num 3)) shop of
     (r1, w1) \<Rightarrow>
       (case addItemToCart sample_host (JString ''Milk'') (JNumber (Num 3)) w1 of
          (r2, w2) \<Rightarrow>
            (case r1 of Inr res \<Rightarrow> success res | Inl e \<Rightarrow> False) \<and>
            db_cart_items w1 =
              [\<lparr>cr_id = 1, cr_user_id = ''u1'', cr_product_id = ''p2'', cr_quantity = 3\<rparr>] \<and>
            r2 = Inr \<lparr>success = True,
                      message =
                        [Txt ''Added '', IntPart 3, Txt '' '', Txt ''Milk'',
                         Txt '' to your cart'', Txt ('' (I matched '' @ dq),
                         JsPart (JString ''Milk''), Txt (dq @ '' to '' @ dq), Txt ''Milk'',
                         Txt (dq @ '')''), Txt ''.'', Txt '' Your cart now has '', IntPart 3,
                         Txt ('' items totaling '' @ rupee), Fixed2 180, Txt ''.''],
                      payload = AddedItem ''Milk'' Exact 3 180\<rparr> \<and>
            db_cart_items w2 =
              [\<lparr>cr_id = 1, cr_user_id = ''u1'', cr_product_id = ''p2'', cr_quantity = 3\<rparr>] \<and>
            p_stock_quantity milk = 5)"
  by code_simp

text \<open>
  The stock is compared with the requested quantity alone, so a row can still exceed the
  stock. In a session started with 1 Milk in the cart, two successive calls adding 5 Milk
  both succeed, and each leaves the row at \<open>1 + 5 = 6\<close> while the stock is 5.
\<close>

lemma two_adds_exceed_stock:
  "case addItemToCart sample_host (JString ''Milk'') (JNumber (Num 5)) shop_with_cart of
     (r1, w1) \<Rightarrow>
       (case addItemToCart sample_host (JString ''Milk'') (JNumber (Num 5)) w1 of
          (r2, w2) \<Rightarrow>
            (case r1 of Inr res \<Rightarrow> success res | Inl e \<Rightarrow> False) \<and>
            (case r2 of Inr res \<Rightarrow> success res | Inl e \<Rightarrow> False) \<and>
            map (\<lambda>r. (cr_product_id r, cr_quantity r)) (db_cart_items w1)
              = [(''p1'', 2), (''p2'', 6)] \<and>
            map (\<lambda>r. (cr_product_id r, cr_quantity r)) (db_cart_items w2)
              = [(''p1'', 2), (''p2'', 6)] \<and>
            p_stock_quantity milk = 5)"
  by code_simp

end
